theory Spec2Isabelle
  imports Complex_Main "HOL-Library.Sublist"
begin

section \<open>ImageDataProvider of src\_3d/core/image\_dataset.py\<close>

text \<open>
  A shallow embedding of the class \<^verbatim>\<open>ImageDataProvider\<close>. Python exceptions are
  values of \<open>py_error\<close>; a method that can raise returns \<open>py_error + 'a\<close>, with
  \<open>Inl\<close> the exception. Python integers are \<open>int\<close>, voxel intensities are
  \<open>real\<close>, strings are \<open>string\<close>.
\<close>

datatype py_error =
    AssertionError
  | ValueError
  | TypeError
  | IndexError
  | UnboundLocalError
  | OverflowError

subsection \<open>The provider object\<close>

text \<open>
  \<^verbatim>\<open>self.a_min\<close> is a number or \<open>-np.inf\<close>; \<^verbatim>\<open>self.a_max\<close> is a number,
  \<open>np.inf\<close> or Python's \<open>None\<close> (line 79 stores the argument as it came when
  \<open>a_min\<close> was given).
\<close>

datatype lower_bound = NegInf | Lower real

datatype upper_bound = PosInf | Upper real | PyNone

text \<open>
  The fields of \<^verbatim>\<open>self\<close> that the methods below read. \<^verbatim>\<open>kwargs\<close> is the
  dictionary of extra keyword arguments; of its values only strings (the
  \<^verbatim>\<open>normalization_method\<close>) are read. \<^verbatim>\<open>patch_size\<close> is the stored
  \<^verbatim>\<open>np.int16\<close> array.
\<close>

record provider =
  a_min :: lower_bound
  a_max :: upper_bound
  image_suffix :: string
  label_suffix :: string
  n_atlas :: int
  crop_patch :: bool
  random_crop :: bool
  patch_size :: "int list"
  crop_roi :: bool
  patch_center :: "int list option"
  n_class :: int
  channels :: int
  label_intensity :: "real list"
  target_modality :: string
  atlas_modality :: string
  stage :: string
  image_normalization :: bool
  image_augmentation :: bool
  image_name_index_begin :: int
  image_name_index_end :: int
  kwargs :: "string \<rightharpoonup> string"
  target_atlas_image_names :: "(string \<times> string list) list"

subsection \<open>Name pairing: \<^verbatim>\<open>_find_data_names\<close> and \<^verbatim>\<open>__len__\<close>\<close>

text \<open>
  \<^verbatim>\<open>itertools.combinations(xs, r)\<close>: the \<open>r\<close>-element subsequences of \<open>xs\<close>, by
  position, in lexicographic order of the positions.
\<close>

fun combinations :: "'a list \<Rightarrow> nat \<Rightarrow> 'a list list" where
  "combinations xs 0 = [[]]"
| "combinations [] (Suc r) = []"
| "combinations (x # xs) (Suc r) =
     map ((#) x) (combinations xs r) @ combinations xs (Suc r)"

text \<open>A negative \<open>r\<close> raises \<^verbatim>\<open>ValueError("r must be non-negative")\<close>.\<close>

definition py_combinations :: "'a list \<Rightarrow> int \<Rightarrow> py_error + 'a list list" where
  "py_combinations xs r =
     (if r < 0 then Inl ValueError else Inr (combinations xs (nat r)))"

text \<open>The Python slice \<^verbatim>\<open>s[b:e]\<close> with integer bounds, negative ones counted from the end.\<close>

definition slice_index :: "nat \<Rightarrow> int \<Rightarrow> nat" where
  "slice_index n i = (if i < 0 then nat (max 0 (int n + i)) else min (nat i) n)"

definition py_slice :: "'a list \<Rightarrow> int \<Rightarrow> int \<Rightarrow> 'a list" where
  "py_slice s b e =
     (let lo = slice_index (length s) b; hi = slice_index (length s) e
      in take (hi - lo) (drop lo s))"

text \<open>\<^verbatim>\<open>os.path.basename\<close>: what follows the last slash.\<close>

definition basename :: "string \<Rightarrow> string" where
  "basename p = rev (takeWhile (\<lambda>c. c \<noteq> CHR ''/'') (rev p))"

text \<open>
  The substring a target's atlases must contain (line 293), and the screening of the
  atlas names with it. Python's \<^verbatim>\<open>a in b\<close> on strings is \<^const>\<open>sublist\<close>.
\<close>

definition target_marker :: "provider \<Rightarrow> string \<Rightarrow> string" where
  "target_marker self target_name =
     ''target-'' @ py_slice (basename target_name)
                     (image_name_index_begin self) (image_name_index_end self)"

text \<open>
  The loop body of the multi-stage branch (lines 290--299) for one target: its pairs
  with every combination of its screened atlases.
\<close>

definition multi_stage_pairs ::
  "provider \<Rightarrow> string list \<Rightarrow> string \<Rightarrow> py_error + (string \<times> string list) list" where
  "multi_stage_pairs self atlas_names target_name =
     (let a_names = filter (sublist (target_marker self target_name)) atlas_names
      in case py_combinations a_names (n_atlas self) of
           Inl e \<Rightarrow> Inl e
         | Inr comb_atlas_names \<Rightarrow> Inr (List.product [target_name] comb_atlas_names))"

fun multi_stage_loop ::
  "provider \<Rightarrow> string list \<Rightarrow> string list \<Rightarrow> py_error + (string \<times> string list) list list" where
  "multi_stage_loop self atlas_names [] = Inr []"
| "multi_stage_loop self atlas_names (target_name # rest) =
     (case multi_stage_pairs self atlas_names target_name of
        Inl e \<Rightarrow> Inl e
      | Inr pairs \<Rightarrow>
          (case multi_stage_loop self atlas_names rest of
             Inl e \<Rightarrow> Inl e
           | Inr all_names \<Rightarrow> Inr (pairs # all_names)))"

text \<open>
  \<^verbatim>\<open>_find_data_names\<close>. The two file lists are what
  \<^verbatim>\<open>utils.strsort(glob.glob(...))\<close> returned for the two search paths. With a
  \<^verbatim>\<open>stage\<close> that is neither \<open>'multi'\<close> nor \<open>'single'\<close> the returned variable was
  never assigned.
\<close>

definition find_data_names ::
  "provider \<Rightarrow> string list \<Rightarrow> string list \<Rightarrow> string \<Rightarrow>
   py_error + (string \<times> string list) list" where
  "find_data_names self all_target_files all_atlas_files name_suffix =
     (let target_names = filter (sublist name_suffix) all_target_files
      in if \<not> length target_names > 0 then Inl AssertionError
         else
           let atlas_names = filter (sublist name_suffix) all_atlas_files
           in if stage self = ''multi'' then
                (case multi_stage_loop self atlas_names target_names of
                   Inl e \<Rightarrow> Inl e
                 | Inr all_names \<Rightarrow> Inr (concat all_names))
              else if stage self = ''single'' then
                (case py_combinations atlas_names (n_atlas self) of
                   Inl e \<Rightarrow> Inl e
                 | Inr comb_atlas_names \<Rightarrow> Inr (List.product target_names comb_atlas_names))
              else Inl UnboundLocalError)"

text \<open>\<^verbatim>\<open>__len__\<close>.\<close>

definition len :: "provider \<Rightarrow> nat" where
  "len self = length (target_atlas_image_names self)"

subsection \<open>Construction: \<^verbatim>\<open>__init__\<close>\<close>

text \<open>
  The arguments of the constructor that the modelled methods depend on. An unset
  \<^verbatim>\<open>a_min\<close>, \<^verbatim>\<open>a_max\<close> or \<^verbatim>\<open>patch_center\<close> is \<open>None\<close>.
\<close>

record init_args =
  arg_a_min :: "real option"
  arg_a_max :: "real option"
  arg_image_suffix :: string
  arg_label_suffix :: string
  arg_n_atlas :: int
  arg_crop_patch :: bool
  arg_random_crop :: bool
  arg_patch_size :: "int list"
  arg_crop_roi :: bool
  arg_patch_center :: "int list option"
  arg_channels :: int
  arg_n_class :: int
  arg_label_intensity :: "real list"
  arg_image_normalization :: bool
  arg_image_augmentation :: bool
  arg_stage :: string
  arg_target_modality :: string
  arg_atlas_modality :: string
  arg_image_name_index_begin :: int
  arg_image_name_index_end :: int
  arg_kwargs :: "string \<rightharpoonup> string"

text \<open>
  A value stored in an \<^verbatim>\<open>np.int16\<close> array: two's complement on 16 bits, the
  conversion wrapping around.
\<close>

definition int16 :: "int \<Rightarrow> int" where
  "int16 x = (x + 32768) mod 65536 - 32768"

text \<open>
  \<^verbatim>\<open>__init__\<close> (lines 75--114): the assertions on the enumerations, the
  attribute assignments of lines 78--107 (\<open>init_fields\<close>, before the names are
  found), the name pairing and the last assertion. The two lists are the sorted results of
  \<^verbatim>\<open>glob.glob\<close> for \<^verbatim>\<open>target_search_path\<close> and \<^verbatim>\<open>atlas_search_path\<close>.
  Line 79 tests \<^verbatim>\<open>a_min\<close>, not \<^verbatim>\<open>a_max\<close>. \<^verbatim>\<open>self.kwargs\<close> is the
  dictionary from which line 107 pops the logger.
\<close>

definition init_fields :: "init_args \<Rightarrow> provider" where
  "init_fields args = \<lparr>
     a_min = (case arg_a_min args of Some v \<Rightarrow> Lower v | None \<Rightarrow> NegInf),
     a_max = (if arg_a_min args \<noteq> None
              then (case arg_a_max args of Some v \<Rightarrow> Upper v | None \<Rightarrow> PyNone)
              else PosInf),
     image_suffix = arg_image_suffix args,
     label_suffix = arg_label_suffix args,
     n_atlas = arg_n_atlas args,
     crop_patch = arg_crop_patch args,
     random_crop = arg_random_crop args,
     patch_size = map int16 (arg_patch_size args),
     crop_roi = arg_crop_roi args,
     patch_center = arg_patch_center args,
     n_class = arg_n_class args,
     channels = arg_channels args,
     label_intensity = arg_label_intensity args,
     target_modality = arg_target_modality args,
     atlas_modality = arg_atlas_modality args,
     stage = arg_stage args,
     image_normalization = arg_image_normalization args,
     image_augmentation = arg_image_augmentation args,
     image_name_index_begin = arg_image_name_index_begin args,
     image_name_index_end = arg_image_name_index_end args,
     kwargs = (arg_kwargs args)(''logger'' := None),
     target_atlas_image_names = [] \<rparr>"

definition init :: "init_args \<Rightarrow> string list \<Rightarrow> string list \<Rightarrow> py_error + provider" where
  "init args all_target_files all_atlas_files =
     (if arg_stage args \<notin> set [''single'', ''multi''] then Inl AssertionError
      else if arg_target_modality args \<notin> set [''mr'', ''ct''] then Inl AssertionError
      else if arg_atlas_modality args \<notin> set [''mr'', ''ct''] then Inl AssertionError
      else
        let self = init_fields args
        in case find_data_names self all_target_files all_atlas_files (arg_image_suffix args) of
             Inl e \<Rightarrow> Inl e
           | Inr names \<Rightarrow>
               if int (length (label_intensity self)) \<noteq> n_class self then Inl AssertionError
               else Inr (self\<lparr>target_atlas_image_names := names\<rparr>))"

subsection \<open>Arrays\<close>

text \<open>
  A numpy array: its shape and its entries by index tuple. Only the entries at the
  index tuples of \<open>indices (shape a)\<close> belong to the array; these are listed in C order,
  as \<^verbatim>\<open>np.where\<close>, \<^verbatim>\<open>np.argwhere\<close> and flattening list them.
\<close>

record 'a ndarray =
  shape :: "nat list"
  entry :: "nat list \<Rightarrow> 'a"

definition indices :: "nat list \<Rightarrow> nat list list" where
  "indices sh = product_lists (map (\<lambda>n. [0..<n]) sh)"

definition flat :: "'a ndarray \<Rightarrow> 'a list" where
  "flat a = map (entry a) (indices (shape a))"

definition amap :: "('a \<Rightarrow> 'b) \<Rightarrow> 'a ndarray \<Rightarrow> 'b ndarray" where
  "amap f a = \<lparr>shape = shape a, entry = (\<lambda>idx. f (entry a idx))\<rparr>"

text \<open>\<^verbatim>\<open>np.zeros(sh)\<close>.\<close>

definition zeros :: "nat list \<Rightarrow> real ndarray" where
  "zeros sh = \<lparr>shape = sh, entry = (\<lambda>idx. 0)\<rparr>"

text \<open>\<^verbatim>\<open>np.expand_dims(a, 0)\<close> and \<^verbatim>\<open>np.expand_dims(a, axis=-1)\<close>.\<close>

definition expand_dims_first :: "'a ndarray \<Rightarrow> 'a ndarray" where
  "expand_dims_first a = \<lparr>shape = 1 # shape a, entry = (\<lambda>idx. entry a (tl idx))\<rparr>"

definition expand_dims_last :: "'a ndarray \<Rightarrow> 'a ndarray" where
  "expand_dims_last a = \<lparr>shape = shape a @ [1], entry = (\<lambda>idx. entry a (butlast idx))\<rparr>"

text \<open>The assignment \<^verbatim>\<open>a[..., k] = v\<close> for an array \<open>v\<close> of the shape of the other axes.\<close>

definition set_channel :: "'a ndarray \<Rightarrow> nat \<Rightarrow> (nat list \<Rightarrow> 'a) \<Rightarrow> 'a ndarray" where
  "set_channel a k v =
     a\<lparr>entry := (\<lambda>idx. if idx \<noteq> [] \<and> last idx = k then v (butlast idx) else entry a idx)\<rparr>"

subsection \<open>One-hot labels: \<^verbatim>\<open>_process_label\<close>\<close>

text \<open>\<^verbatim>\<open>np.around\<close>: to the nearest integer, a half to the even neighbour.\<close>

definition np_around :: "real \<Rightarrow> real" where
  "np_around x =
     (let f = \<lfloor>x\<rfloor>; d = x - of_int f
      in of_int (if d < 1 / 2 then f
                 else if 1 / 2 < d then f + 1
                 else if even f then f else f + 1))"

text \<open>
  The loop of lines 337--338 over \<open>k\<close> in \<^verbatim>\<open>range(1, n_class)\<close>: channel \<open>k\<close> becomes
  the comparison of the rounded labels with \<^verbatim>\<open>label_intensity[k]\<close>, as 1.0 or 0.0.
\<close>

fun label_loop ::
  "provider \<Rightarrow> real ndarray \<Rightarrow> nat list \<Rightarrow> real ndarray \<Rightarrow> py_error + real ndarray" where
  "label_loop self gt [] label = Inr label"
| "label_loop self gt (k # ks) label =
     (if k < length (label_intensity self)
      then label_loop self gt ks
             (set_channel label k
                (\<lambda>idx. if entry gt idx = label_intensity self ! k then 1 else 0))
      else Inl IndexError)"

text \<open>\<^verbatim>\<open>np.sum(label[..., 1:], axis=-1)\<close> at one voxel of a label with \<open>n\<close> channels.\<close>

definition foreground_sum :: "real ndarray \<Rightarrow> nat \<Rightarrow> nat list \<Rightarrow> real" where
  "foreground_sum label n idx = sum_list (map (\<lambda>c. entry label (idx @ [c])) [1..<n])"

text \<open>
  \<^verbatim>\<open>_process_label\<close> (lines 334--342). A negative \<^verbatim>\<open>n_class\<close> is no dimension
  for \<^verbatim>\<open>np.zeros\<close>; with \<^verbatim>\<open>n_class\<close> 0 the class axis has no index 0 to assign to.
\<close>

definition process_label :: "provider \<Rightarrow> real ndarray \<Rightarrow> py_error + real ndarray" where
  "process_label self gt0 =
     (let gt = amap np_around gt0
      in if n_class self < 0 then Inl ValueError
         else
           let n = nat (n_class self);
               label0 = zeros (shape gt @ [n])
           in case label_loop self gt [1..<n] label0 of
                Inl e \<Rightarrow> Inl e
              | Inr label \<Rightarrow>
                  if n = 0 then Inl IndexError
                  else Inr (expand_dims_first
                         (set_channel label 0
                            (\<lambda>idx. if foreground_sum label n idx = 0 then 1 else 0))))"

subsection \<open>Foreground: \<^verbatim>\<open>_get_foreground_center\<close> and \<^verbatim>\<open>get_roi_coordinates\<close>\<close>

text \<open>
  The mask of lines 398--399 and 412--413: the voxels equal to one of
  \<^verbatim>\<open>label_intensity[1:]\<close>. \<^verbatim>\<open>np.concatenate\<close> of no array raises.
\<close>

definition foreground_flag :: "provider \<Rightarrow> real ndarray \<Rightarrow> py_error + bool ndarray" where
  "foreground_flag self label =
     (if tl (label_intensity self) = [] then Inl ValueError
      else Inr (amap (\<lambda>v. list_ex (\<lambda>k. v = k) (tl (label_intensity self))) label))"

text \<open>\<^verbatim>\<open>np.argwhere\<close>: the index tuples of the true voxels.\<close>

definition argwhere :: "bool ndarray \<Rightarrow> nat list list" where
  "argwhere flag = filter (entry flag) (indices (shape flag))"

text \<open>
  \<^verbatim>\<open>_get_foreground_center\<close>. The mean of no coordinates is NaN, with a warning and no
  exception; \<^verbatim>\<open>np.floor\<close> keeps it and \<^verbatim>\<open>astype(np.int16)\<close> converts it to what
  the platform gives for NaN, the parameter \<open>nan_as_int16\<close>. Otherwise the mean is the
  exact quotient (the rounding of the floating-point division is not modelled).
\<close>

definition get_foreground_center :: "int \<Rightarrow> provider \<Rightarrow> real ndarray \<Rightarrow> py_error + int list" where
  "get_foreground_center nan_as_int16 self label =
     (case foreground_flag self label of
        Inl e \<Rightarrow> Inl e
      | Inr flag \<Rightarrow>
          let coords = argwhere flag
          in if coords = [] then Inr (replicate (length (shape label)) nan_as_int16)
             else Inr (map (\<lambda>axis.
                         int16 \<lfloor>real (sum_list (map (\<lambda>idx. idx ! axis) coords))
                                  / real (length coords)\<rfloor>)
                       [0..<length (shape label)]))"

text \<open>
  \<^verbatim>\<open>get_roi_coordinates\<close>. \<^verbatim>\<open>np.min\<close> over no index tuple raises (a reduction
  without identity over a zero-size array). The bounds are returned as numpy returns
  them, as floating-point numbers with integer values.
\<close>

definition get_roi_coordinates ::
  "provider \<Rightarrow> real ndarray \<Rightarrow> real \<Rightarrow> py_error + real list \<times> real list" where
  "get_roi_coordinates self label mag_rate =
     (case foreground_flag self label of
        Inl e \<Rightarrow> Inl e
      | Inr flag \<Rightarrow>
          let arg_index = argwhere flag
          in if arg_index = [] then Inl ValueError
             else
               let axes = [0..<length (shape label)];
                   low = map (\<lambda>axis. Min (set (map (\<lambda>idx. idx ! axis) arg_index))) axes;
                   high = map (\<lambda>axis. Max (set (map (\<lambda>idx. idx ! axis) arg_index))) axes;
                   soft_low = map2 (\<lambda>l h.
                       max (of_int \<lfloor>real l - (real h - real l) * mag_rate / 2\<rfloor>) 0) low high;
                   soft_high = map2 (\<lambda>(l, h) n.
                       min (of_int \<lfloor>real h + (real h - real l) * mag_rate / 2\<rfloor>) (real n - 1))
                     (zip low high) (shape label)
               in Inr (soft_low, soft_high))"

subsection \<open>Intensities: \<^verbatim>\<open>_process_image\<close>\<close>

text \<open>
  Voxel intensities of an input volume are finite reals; the rounding of floating-point
  arithmetic is not modelled. A normalised volume can hold NaN, the quotient 0 / 0.
\<close>

datatype npfloat = Finite real | NaN

text \<open>
  \<^verbatim>\<open>np.percentile(data, q)\<close> of the flattened volume, with linear interpolation
  between the two neighbouring order statistics. It raises on a volume without voxels.
\<close>

definition percentile :: "real list \<Rightarrow> real \<Rightarrow> py_error + real" where
  "percentile xs q =
     (if xs = [] then Inl IndexError
      else
        let a = sort xs;
            pos = q / 100 * real (length xs - 1);
            below = nat \<lfloor>pos\<rfloor>;
            above = min (below + 1) (length xs - 1)
        in Inr (a ! below + (a ! above - a ! below) * (pos - real below)))"

text \<open>
  \<^verbatim>\<open>np.clip(x, lo, hi)\<close> on one voxel: the minimum with \<open>hi\<close> of the maximum with
  \<open>lo\<close>; \<open>None\<close> as upper bound clips nothing from above.
\<close>

definition np_clip :: "lower_bound \<Rightarrow> upper_bound \<Rightarrow> real \<Rightarrow> real" where
  "np_clip lo hi x =
     (let y = (case lo of NegInf \<Rightarrow> x | Lower l \<Rightarrow> max x l)
      in case hi of PosInf \<Rightarrow> y | PyNone \<Rightarrow> y | Upper u \<Rightarrow> min y u)"

text \<open>
  Lines 351--355. For a modality other than \<open>mr\<close> and \<open>ct\<close> the local
  \<^verbatim>\<open>data_clip\<close> stays unbound and the next statement, which reads it, raises.
\<close>

definition clip_data :: "provider \<Rightarrow> real ndarray \<Rightarrow> string \<Rightarrow> py_error + real ndarray" where
  "clip_data self data modality =
     (if modality = ''mr'' then
        (case percentile (flat data) 99 of
           Inl e \<Rightarrow> Inl e
         | Inr p \<Rightarrow> Inr (amap (\<lambda>x. min x p) data))
      else if modality = ''ct'' then Inr (amap (np_clip (a_min self) (a_max self)) data)
      else Inl UnboundLocalError)"

text \<open>
  \<^verbatim>\<open>stats.zscore(a, axis=None, ddof=1)\<close>: the deviation from the mean over the sample
  standard deviation. With fewer than two voxels or a constant volume all entries are NaN.
\<close>

definition zscore :: "real ndarray \<Rightarrow> npfloat ndarray" where
  "zscore a =
     (let xs = flat a;
          n = length xs;
          mn = sum_list xs / real n;
          sd = sqrt (sum_list (map (\<lambda>x. (x - mn)\<^sup>2) xs) / (real n - 1))
      in if n \<le> 1 \<or> sd = 0 then amap (\<lambda>x. NaN) a
         else amap (\<lambda>x. Finite ((x - mn) / sd)) a)"

text \<open>
  Lines 369--370. \<^verbatim>\<open>np.min\<close> of a volume without voxels raises; a constant volume
  gives 0 / 0 everywhere.
\<close>

definition min_max :: "real ndarray \<Rightarrow> py_error + npfloat ndarray" where
  "min_max a =
     (if flat a = [] then Inl ValueError
      else
        let lo = Min (set (flat a));
            data_norm = amap (\<lambda>x. x - lo) a;
            hi = Max (set (flat data_norm))
        in Inr (if hi = 0 then amap (\<lambda>x. NaN) data_norm
                else amap (\<lambda>x. Finite (x / hi)) data_norm))"

text \<open>
  Line 376: \<^verbatim>\<open>np.tile\<close> with the repetitions \<open>(1., ..., 1., channels)\<close>, which
  \<^verbatim>\<open>np.hstack\<close> makes floating-point numbers. When all are 1 the result is a copy;
  otherwise \<^verbatim>\<open>np.tile\<close> repeats by a float count, which numpy refuses.
\<close>

definition tile_channels :: "provider \<Rightarrow> 'a ndarray \<Rightarrow> py_error + 'a ndarray" where
  "tile_channels self data_expand =
     (if channels self = 1 then Inr data_expand else Inl TypeError)"

definition expand_and_tile :: "provider \<Rightarrow> 'a ndarray \<Rightarrow> py_error + 'a ndarray" where
  "expand_and_tile self data_norm =
     (case tile_channels self (expand_dims_last data_norm) of
        Inl e \<Rightarrow> Inl e
      | Inr tiled \<Rightarrow> Inr (expand_dims_first tiled))"

text \<open>
  \<^verbatim>\<open>_process_image\<close> (lines 344--376). It returns the result or the exception,
  and the provider as the call leaves it: line 363 pops \<^verbatim>\<open>normalization_method\<close>
  from \<^verbatim>\<open>self.kwargs\<close>. \<^verbatim>\<open>randomFilter\<close> comes from a module outside this
  file and is a parameter.
\<close>

definition process_image ::
  "(real ndarray \<Rightarrow> real ndarray) \<Rightarrow> provider \<Rightarrow> real ndarray \<Rightarrow> string \<Rightarrow> bool \<Rightarrow> bool
     \<Rightarrow> (py_error + npfloat ndarray) \<times> provider" where
  "process_image randomFilter self data modality normalization augmentation =
     (case clip_data self data modality of
        Inl e \<Rightarrow> (Inl e, self)
      | Inr data_clip \<Rightarrow>
          let data_aug = (if augmentation then randomFilter data_clip else data_clip)
          in if normalization then
               let method = (case kwargs self ''normalization_method'' of
                               Some m \<Rightarrow> m | None \<Rightarrow> ''z-score'');
                   popped = self\<lparr>kwargs := (kwargs self)(''normalization_method'' := None)\<rparr>
               in if method = ''z-score'' then (expand_and_tile popped (zscore data_aug), popped)
                  else if method = ''min-max'' then
                    (case min_max data_aug of
                       Inl e \<Rightarrow> (Inl e, popped)
                     | Inr data_norm \<Rightarrow> (expand_and_tile popped data_norm, popped))
                  else (Inl ValueError, popped)
             else (expand_and_tile self (amap Finite data_aug), self))"

subsection \<open>Patch geometry: the branch \<^verbatim>\<open>elif self.crop_patch\<close> of \<^verbatim>\<open>__getitem__\<close>\<close>

text \<open>
  Sequencing of steps that can raise.
\<close>

definition bind_result :: "py_error + 'a \<Rightarrow> ('a \<Rightarrow> py_error + 'b) \<Rightarrow> py_error + 'b" where
  "bind_result r f = (case r of Inl e \<Rightarrow> Inl e | Inr x \<Rightarrow> f x)"

text \<open>
  An element-wise operation on two one-dimensional arrays, with numpy's broadcasting: equal
  lengths, or one operand of length 1; other lengths raise \<^verbatim>\<open>ValueError\<close>.
\<close>

definition broadcast2 :: "('a \<Rightarrow> 'b \<Rightarrow> 'c) \<Rightarrow> 'a list \<Rightarrow> 'b list \<Rightarrow> py_error + 'c list" where
  "broadcast2 f xs ys =
     (if length xs = length ys then Inr (map2 f xs ys)
      else if length xs = 1 then Inr (map (f (hd xs)) ys)
      else if length ys = 1 then Inr (map (\<lambda>x. f x (hd ys)) xs)
      else Inl ValueError)"

definition py_assert :: "bool \<Rightarrow> py_error + unit" where
  "py_assert b = (if b then Inr () else Inl AssertionError)"

text \<open>\<^verbatim>\<open>assert np.all(self.patch_size <= np.array(sh))\<close>.\<close>

definition assert_patch_fits :: "int list \<Rightarrow> nat list \<Rightarrow> py_error + unit" where
  "assert_patch_fits ps sh =
     bind_result (broadcast2 (\<lambda>p s. p \<le> int s) ps sh) (\<lambda>fits. py_assert (list_all id fits))"

text \<open>\<^verbatim>\<open>xs[i]\<close> for a non-negative \<open>i\<close>.\<close>

definition py_index :: "'a list \<Rightarrow> nat \<Rightarrow> py_error + 'a" where
  "py_index xs i = (if i < length xs then Inr (xs ! i) else Inl IndexError)"

text \<open>
  \<^verbatim>\<open>np.random.randint(low, high)\<close>: an integer of \<open>[low, high)\<close>, chosen by the
  number \<open>r\<close> that the generator supplies; it raises when the range is empty.
\<close>

definition randint :: "nat \<Rightarrow> int \<Rightarrow> int \<Rightarrow> py_error + int" where
  "randint r low high =
     (if high \<le> low then Inl ValueError else Inr (low + int r mod (high - low)))"

text \<open>
  The locals that the five branches of lines 169--190 bind; \<open>None\<close> is an unbound name,
  and reading it raises \<^verbatim>\<open>UnboundLocalError\<close>.
\<close>

record locals =
  loc_patch_center :: "int list option"
  loc_target_patch_center :: "int list option"
  loc_atlas_patch_center :: "int list option"

definition unbound :: locals where
  "unbound = \<lparr>loc_patch_center = None, loc_target_patch_center = None,
               loc_atlas_patch_center = None\<rparr>"

definition read_local :: "'a option \<Rightarrow> py_error + 'a" where
  "read_local v = (case v of None \<Rightarrow> Inl UnboundLocalError | Some x \<Rightarrow> Inr x)"

text \<open>
  Scalar arithmetic is that of numpy before version 2: an \<^verbatim>\<open>np.int16\<close> scalar
  combined with a Python integer gives a 64-bit integer (taken as unbounded), two
  \<^verbatim>\<open>np.int16\<close> scalars give an \<^verbatim>\<open>np.int16\<close> scalar, and
  \<^verbatim>\<open>np.asarray(..., dtype=np.int16)\<close> wraps around.

  Lines 174--177, the comprehension over the axes \<open>i\<close> of the target label:
  \<^verbatim>\<open>randint(patch_size[i] // 2, shape[i] + patch_size[i] // 2 - patch_size[i] + 1)\<close>.
\<close>

fun random_center :: "int list \<Rightarrow> nat list \<Rightarrow> (nat \<Rightarrow> nat) \<Rightarrow> nat list \<Rightarrow> py_error + int list" where
  "random_center ps sh rnd [] = Inr []"
| "random_center ps sh rnd (i # axes) =
     bind_result (py_index ps i) (\<lambda>p.
     bind_result (randint (rnd i) (p div 2) (int (sh ! i) + p div 2 - p + 1)) (\<lambda>c.
     bind_result (random_center ps sh rnd axes) (\<lambda>cs. Inr (c # cs))))"

text \<open>
  Python's \<^verbatim>\<open>max(x, arr)\<close> of a scalar and an array (line 180 passes the whole
  \<^verbatim>\<open>self.patch_size // 2\<close>): it tests \<^verbatim>\<open>arr > x\<close>, whose truth value is
  ambiguous, a \<^verbatim>\<open>ValueError\<close>, for an array of more than one element.
\<close>

definition py_max_scalar_array :: "int \<Rightarrow> int list \<Rightarrow> py_error + int" where
  "py_max_scalar_array x arr =
     (if 1 < length arr then Inl ValueError
      else if arr \<noteq> [] \<and> x < hd arr then Inr (hd arr)
      else Inr x)"

text \<open>Lines 180--184, the comprehension over the axes \<open>i\<close> of the target label.\<close>

fun roi_random_center ::
  "int list \<Rightarrow> nat list \<Rightarrow> int list \<Rightarrow> (nat \<Rightarrow> nat) \<Rightarrow> nat list \<Rightarrow> py_error + int list" where
  "roi_random_center ps sh roi_center rnd [] = Inr []"
| "roi_random_center ps sh roi_center rnd (i # axes) =
     bind_result (py_index ps i) (\<lambda>p.
     bind_result (py_max_scalar_array (int16 (roi_center ! i - p) + p div 2 + 1)
                    (map (\<lambda>q. q div 2) ps)) (\<lambda>low.
     bind_result (randint (rnd i) low
                    (min (roi_center ! i + p div 2) (int (sh ! i) + p div 2 - p + 1))) (\<lambda>c.
     bind_result (roi_random_center ps sh roi_center rnd axes) (\<lambda>cs. Inr (c # cs)))))"

text \<open>
  \<^verbatim>\<open>if self.patch_center:\<close> holds for a non-empty sequence; \<open>None\<close> and the empty
  sequence are false.
\<close>

definition fixed_center :: "provider \<Rightarrow> int list" where
  "fixed_center self = (case patch_center self of None \<Rightarrow> [] | Some c \<Rightarrow> c)"

text \<open>
  Lines 169--190: the choice of the center. Four branches bind \<^verbatim>\<open>patch_center\<close>; only
  the last binds \<^verbatim>\<open>target_patch_center\<close> and \<^verbatim>\<open>atlas_patch_center\<close>.
  \<open>atlases_image_shape\<close> is the shape of the stacked atlas images, the atlas axis last.
\<close>

definition choose_center ::
  "provider \<Rightarrow> nat list \<Rightarrow> real ndarray \<Rightarrow> nat list \<Rightarrow> (nat \<Rightarrow> nat) \<Rightarrow> int \<Rightarrow> py_error + locals" where
  "choose_center self target_image_shape target_label atlases_image_shape rnd nan_as_int16 =
     (if fixed_center self \<noteq> [] then
        Inr (unbound\<lparr>loc_patch_center := Some (map int16 (fixed_center self))\<rparr>)
      else if random_crop self \<and> \<not> crop_roi self then
        bind_result (random_center (patch_size self) (shape target_label) rnd
                       [0..<length (shape target_label)]) (\<lambda>c.
        Inr (unbound\<lparr>loc_patch_center := Some (map int16 c)\<rparr>))
      else if random_crop self \<and> crop_roi self then
        bind_result (get_foreground_center nan_as_int16 self target_label) (\<lambda>roi_center.
        bind_result (roi_random_center (patch_size self) (shape target_label) roi_center rnd
                       [0..<length (shape target_label)]) (\<lambda>c.
        Inr (unbound\<lparr>loc_patch_center := Some (map int16 c)\<rparr>)))
      else if \<not> random_crop self \<and> crop_roi self then
        bind_result (get_foreground_center nan_as_int16 self target_label) (\<lambda>c.
        Inr (unbound\<lparr>loc_patch_center := Some c\<rparr>))
      else
        Inr (unbound\<lparr>
          loc_target_patch_center := Some (map (\<lambda>s. int16 (int s) div 2) target_image_shape),
          loc_atlas_patch_center :=
            Some (map (\<lambda>s. int16 (int s) div 2) (butlast atlases_image_shape))\<rparr>))"

text \<open>The slicing bounds of the target and of the atlases.\<close>

record geometry =
  target_begin :: "int list"
  target_end :: "int list"
  atlas_begin :: "int list"
  atlas_end :: "int list"

text \<open>
  Lines 164--199: the two assertions, the choice of the center and the slicing bounds,
  in \<^verbatim>\<open>np.int16\<close> arithmetic. \<^verbatim>\<open>center_percent\<close> is computed as far as it can
  raise (its operands must broadcast). The arguments are the shape of the target image,
  the target label, and the shapes of the stacked atlas images and labels.
\<close>

definition patch_geometry ::
  "provider \<Rightarrow> nat list \<Rightarrow> real ndarray \<Rightarrow> nat list \<Rightarrow> nat list \<Rightarrow> (nat \<Rightarrow> nat) \<Rightarrow> int
     \<Rightarrow> py_error + geometry" where
  "patch_geometry self target_image_shape target_label atlases_image_shape atlases_label_shape
       rnd nan_as_int16 =
     bind_result (assert_patch_fits (patch_size self) (shape target_label)) (\<lambda>_.
     bind_result (assert_patch_fits (patch_size self) (butlast atlases_label_shape)) (\<lambda>_.
     bind_result (choose_center self target_image_shape target_label atlases_image_shape
                    rnd nan_as_int16) (\<lambda>loc.
     bind_result (read_local (loc_target_patch_center loc)) (\<lambda>target_patch_center.
     bind_result (broadcast2 (\<lambda>c p. int16 (c - p div 2)) target_patch_center (patch_size self))
       (\<lambda>t_begin.
     bind_result (broadcast2 (\<lambda>b p. int16 (b + p)) t_begin (patch_size self)) (\<lambda>t_end.
     bind_result (broadcast2 (\<lambda>c s. (c, s)) target_patch_center (shape target_label)) (\<lambda>_.
     bind_result (read_local (loc_atlas_patch_center loc)) (\<lambda>atlas_patch_center.
     bind_result (broadcast2 (\<lambda>c p. int16 (c - p div 2)) atlas_patch_center (patch_size self))
       (\<lambda>a_begin.
     bind_result (broadcast2 (\<lambda>b p. int16 (b + p)) a_begin (patch_size self)) (\<lambda>a_end.
     Inr \<lparr>target_begin = t_begin, target_end = t_end,
          atlas_begin = a_begin, atlas_end = a_end\<rparr>))))))))))"

subsection \<open>Example inputs\<close>

text \<open>
  The defaults of the constructor's signature, with the suffix \<open>image\<close> for short file
  names; the examples below change single arguments of it.
\<close>

definition default_args :: init_args where
  "default_args = \<lparr>
     arg_a_min = None, arg_a_max = None,
     arg_image_suffix = ''image'', arg_label_suffix = ''label'',
     arg_n_atlas = 1, arg_crop_patch = False, arg_random_crop = False,
     arg_patch_size = [64, 64, 64], arg_crop_roi = False, arg_patch_center = None,
     arg_channels = 1, arg_n_class = 2, arg_label_intensity = [0, 205],
     arg_image_normalization = True, arg_image_augmentation = False,
     arg_stage = ''single'', arg_target_modality = ''mr'', arg_atlas_modality = ''mr'',
     arg_image_name_index_begin = 0, arg_image_name_index_end = - 1,
     arg_kwargs = Map.empty \<rparr>"

definition three_targets :: "string list" where
  "three_targets = [''t1_image'', ''t1_label'', ''t2_image'', ''t2_label'', ''t3_image'']"

definition three_atlases :: "string list" where
  "three_atlases = [''a1_image'', ''a1_label'', ''a2_image'', ''a3_image'']"

definition two_targets :: "string list" where
  "two_targets = [''data/p1_image'', ''data/p2_image'']"

definition five_atlases :: "string list" where
  "five_atlases = [''target-p1_a1_image'', ''target-p1_a2_image'', ''other-p1_a5_image'',
                   ''target-p2_a3_image'', ''target-p2_a4_image'']"

text \<open>A label volume of shape 1 x 1 x 2: one background voxel, one voxel of intensity 205.\<close>

definition two_voxel_label :: "real ndarray" where
  "two_voxel_label = \<lparr>shape = [1, 1, 2], entry = (\<lambda>idx. if idx = [0, 0, 1] then 205 else 0)\<rparr>"

text \<open>A provider right after the attribute assignments, and two variations of its classes.\<close>

definition default_provider :: provider where
  "default_provider = init_fields default_args"

definition duplicate_intensity_provider :: provider where
  "duplicate_intensity_provider =
     init_fields (default_args\<lparr>arg_n_class := 3, arg_label_intensity := [0, 205, 205]\<rparr>)"

definition no_class_provider :: provider where
  "no_class_provider = init_fields (default_args\<lparr>arg_n_class := 0, arg_label_intensity := []\<rparr>)"

text \<open>The entries \<open>out[idx, 0], ..., out[idx, n - 1]\<close> of a result along its last axis.\<close>

definition channels_at :: "py_error + 'a ndarray \<Rightarrow> nat list \<Rightarrow> nat \<Rightarrow> py_error + 'a list" where
  "channels_at r idx n =
     (case r of Inl e \<Rightarrow> Inl e | Inr out \<Rightarrow> Inr (map (\<lambda>c. entry out (idx @ [c])) [0..<n]))"

text \<open>A label volume of shape 1 x 1 x 2 with background only.\<close>

definition background_label :: "real ndarray" where
  "background_label = \<lparr>shape = [1, 1, 2], entry = (\<lambda>idx. 0)\<rparr>"

text \<open>A volume of shape 1 x 1 x 3 with the intensities 0, 1, 2.\<close>

definition ramp_volume :: "real ndarray" where
  "ramp_volume = \<lparr>shape = [1, 1, 3], entry = (\<lambda>idx. real (last idx))\<rparr>"

text \<open>A provider constructed with \<^verbatim>\<open>a_max=1\<close> and no \<^verbatim>\<open>a_min\<close>.\<close>

definition upper_only_provider :: provider where
  "upper_only_provider = init_fields (default_args\<lparr>arg_a_max := Some 1\<rparr>)"

text \<open>A provider constructed with \<^verbatim>\<open>normalization_method='min-max'\<close>.\<close>

definition min_max_provider :: provider where
  "min_max_provider =
     init_fields (default_args\<lparr>arg_kwargs := [''normalization_method'' \<mapsto> ''min-max'']\<rparr>)"

text \<open>
  Providers that crop patches of size 4 x 4 x 4: with the default center, a fixed center,
  a fixed center at the corner of the volume, and a random center covering the foreground.
\<close>

definition patch_args :: init_args where
  "patch_args = default_args\<lparr>arg_crop_patch := True, arg_patch_size := [4, 4, 4]\<rparr>"


definition fixed_center_provider :: provider where
  "fixed_center_provider = init_fields (patch_args\<lparr>arg_patch_center := Some [4, 4, 4]\<rparr>)"


definition roi_random_provider :: provider where
  "roi_random_provider =
     init_fields (patch_args\<lparr>arg_random_crop := True, arg_crop_roi := True\<rparr>)"

text \<open>A label volume of shape 8 x 8 x 8 whose voxel (4, 4, 4) alone is foreground.\<close>

definition cube_label :: "real ndarray" where
  "cube_label = \<lparr>shape = [8, 8, 8], entry = (\<lambda>idx. if idx = [4, 4, 4] then 205 else 0)\<rparr>"

section \<open>Properties\<close>

subsection \<open>Combinations\<close>

lemma length_combinations: "length (combinations xs r) = length xs choose r"
  by (induction xs r rule: combinations.induct) simp_all

lemma combinations_short: "length xs < r \<Longrightarrow> combinations xs r = []"
  by (induction xs r rule: combinations.induct) simp_all

lemma combinations_subset: "ys \<in> set (combinations xs r) \<Longrightarrow> set ys \<subseteq> set xs"
proof (induction xs r arbitrary: ys rule: combinations.induct)
  case (3 x xs r)
  from 3(3) consider zs where "ys = x # zs" "zs \<in> set (combinations xs r)"
    | "ys \<in> set (combinations xs (Suc r))" by auto
  then show ?case
  proof cases
    case 1
    with 3(1)[of zs] show ?thesis by auto
  next
    case 2
    with 3(2)[of ys] show ?thesis by auto
  qed
qed simp_all

lemma set_combinations: "set (combinations xs r) = {ys. subseq ys xs \<and> length ys = r}"
proof (induction xs r rule: combinations.induct)
  case (3 x xs r)
  show ?case
  proof (rule set_eqI)
    fix ys
    show "ys \<in> set (combinations (x # xs) (Suc r)) \<longleftrightarrow>
          ys \<in> {ys. subseq ys (x # xs) \<and> length ys = Suc r}"
    proof (cases ys)
      case Nil
      then show ?thesis using 3 by auto
    next
      case (Cons y zs)
      then show ?thesis using 3
        by (auto dest: subseq_Cons')
    qed
  qed
qed auto

subsection \<open>Name pairing\<close>

lemma multi_stage_loop_Inr:
  "0 \<le> n_atlas self \<Longrightarrow>
   multi_stage_loop self atlas_names target_names =
     Inr (map (\<lambda>t. List.product [t]
            (combinations (filter (sublist (target_marker self t)) atlas_names)
               (nat (n_atlas self))))
          target_names)"
  by (induction target_names) (simp_all add: multi_stage_pairs_def py_combinations_def)

lemma find_data_names_single:
  assumes "stage self = ''single''" and "0 \<le> n_atlas self"
    and "filter (sublist sfx) target_files \<noteq> []"
  shows "find_data_names self target_files atlas_files sfx =
     Inr (List.product (filter (sublist sfx) target_files)
            (combinations (filter (sublist sfx) atlas_files) (nat (n_atlas self))))"
  using assms by (simp add: find_data_names_def py_combinations_def)

lemma find_data_names_multi:
  assumes "stage self = ''multi''" and "0 \<le> n_atlas self"
    and "filter (sublist sfx) target_files \<noteq> []"
  shows "find_data_names self target_files atlas_files sfx =
     Inr (concat (map (\<lambda>t. List.product [t]
            (combinations
               (filter (sublist (target_marker self t)) (filter (sublist sfx) atlas_files))
               (nat (n_atlas self))))
          (filter (sublist sfx) target_files)))"
  using assms by (simp add: find_data_names_def multi_stage_loop_Inr)

lemma init_valid:
  assumes "arg_stage args \<in> {''single'', ''multi''}"
    and "arg_target_modality args \<in> {''mr'', ''ct''}"
    and "arg_atlas_modality args \<in> {''mr'', ''ct''}"
    and "int (length (arg_label_intensity args)) = arg_n_class args"
    and "find_data_names (init_fields args) target_files atlas_files (arg_image_suffix args)
           = Inr names"
  shows "init args target_files atlas_files =
           Inr ((init_fields args)\<lparr>target_atlas_image_names := names\<rparr>)"
  using assms by (auto simp: init_def Let_def init_fields_def)

text \<open>
  Claim C8. In single-stage mode with at least one target found and a non-negative
  \<^verbatim>\<open>n_atlas\<close>, construction succeeds and the sample keys are the Cartesian product
  of all targets with all \<^verbatim>\<open>n_atlas\<close>-element combinations of the whole atlas pool,
  the combinations being exactly the subsequences of that length (by position, so
  unordered and without repetition). \<^verbatim>\<open>len()\<close> is the number of targets times the
  binomial coefficient; for 3 targets and 3 atlases it is 9 with \<^verbatim>\<open>n_atlas\<close> 1
  and with \<^verbatim>\<open>n_atlas\<close> 2.
\<close>

theorem single_stage_pairing:
  assumes "arg_stage args = ''single''"
    and "arg_target_modality args \<in> {''mr'', ''ct''}"
    and "arg_atlas_modality args \<in> {''mr'', ''ct''}"
    and "int (length (arg_label_intensity args)) = arg_n_class args"
    and "0 \<le> arg_n_atlas args"
    and "targets = filter (sublist (arg_image_suffix args)) target_files"
    and "atlases = filter (sublist (arg_image_suffix args)) atlas_files"
    and "targets \<noteq> []"
  shows "(\<exists>self. init args target_files atlas_files = Inr self \<and>
            target_atlas_image_names self =
              List.product targets (combinations atlases (nat (arg_n_atlas args))) \<and>
            len self = length targets * (length atlases choose nat (arg_n_atlas args)) \<and>
            (length targets = 3 \<and> length atlases = 3 \<and> arg_n_atlas args \<in> {1, 2}
               \<longrightarrow> len self = 9)) \<and>
         set (combinations atlases (nat (arg_n_atlas args))) =
           {c. subseq c atlases \<and> length c = nat (arg_n_atlas args)}"
proof -
  let ?n = "nat (arg_n_atlas args)"
  let ?keys = "List.product targets (combinations atlases ?n)"
  let ?base = "init_fields args"
  have s0: "stage ?base = ''single''" "n_atlas ?base = arg_n_atlas args"
    using assms(1) by (simp_all add: init_fields_def)
  have "find_data_names ?base target_files atlas_files (arg_image_suffix args) = Inr ?keys"
    using find_data_names_single[of ?base "arg_image_suffix args" target_files atlas_files]
      s0 assms(5-8) by simp
  then have i: "init args target_files atlas_files = Inr (?base\<lparr>target_atlas_image_names := ?keys\<rparr>)"
    using init_valid[OF _ assms(2-4)] assms(1) by simp
  have l: "length ?keys = length targets * (length atlases choose ?n)"
    by (simp add: length_combinations)
  have "length targets = 3 \<and> length atlases = 3 \<and> arg_n_atlas args \<in> {1, 2}
     \<longrightarrow> length ?keys = 9"
  proof (intro impI, elim conjE)
    assume a: "length targets = 3" "length atlases = 3" "arg_n_atlas args \<in> {1, 2}"
    then have "?n = 1 \<or> ?n = 2" by auto
    then have "(3::nat) choose ?n = 3" by (auto simp: numeral_2_eq_2 numeral_3_eq_3)
    with a l show "length ?keys = 9" by simp
  qed
  with i l show ?thesis
    by (simp add: len_def set_combinations)
qed

theorem single_stage_pairing_witness:
  "\<exists>self. init (default_args\<lparr>arg_n_atlas := 2\<rparr>) three_targets three_atlases = Inr self \<and>
     target_atlas_image_names self =
       [(''t1_image'', [''a1_image'', ''a2_image'']), (''t1_image'', [''a1_image'', ''a3_image'']),
        (''t1_image'', [''a2_image'', ''a3_image'']),
        (''t2_image'', [''a1_image'', ''a2_image'']), (''t2_image'', [''a1_image'', ''a3_image'']),
        (''t2_image'', [''a2_image'', ''a3_image'']),
        (''t3_image'', [''a1_image'', ''a2_image'']), (''t3_image'', [''a1_image'', ''a3_image'']),
        (''t3_image'', [''a2_image'', ''a3_image''])] \<and>
     len self = 9"
proof -
  let ?args = "default_args\<lparr>arg_n_atlas := 2\<rparr>"
  have t: "[''t1_image'', ''t2_image'', ''t3_image''] =
      filter (sublist (arg_image_suffix ?args)) three_targets"
    by (simp add: default_args_def three_targets_def sublist_code)
  have a: "[''a1_image'', ''a2_image'', ''a3_image''] =
      filter (sublist (arg_image_suffix ?args)) three_atlases"
    by (simp add: default_args_def three_atlases_def sublist_code)
  have v: "arg_stage ?args = ''single''" "arg_target_modality ?args \<in> {''mr'', ''ct''}"
    "arg_atlas_modality ?args \<in> {''mr'', ''ct''}"
    "int (length (arg_label_intensity ?args)) = arg_n_class ?args" "0 \<le> arg_n_atlas ?args"
    by (simp_all add: default_args_def)
  show ?thesis
    using single_stage_pairing[OF v t a] by (auto simp: default_args_def numeral_2_eq_2)
qed

lemma find_data_names_multi_keys:
  assumes "(t, combo) \<in> set (concat (map (\<lambda>t. List.product [t]
            (combinations (filter (sublist (mk t)) atlases) n)) targets))"
  shows "t \<in> set targets \<and> (\<forall>a \<in> set combo. a \<in> set atlases \<and> sublist (mk t) a)"
proof -
  from assms have t: "t \<in> set targets"
    and c: "combo \<in> set (combinations (filter (sublist (mk t)) atlases) n)"
    by auto
  have "set combo \<subseteq> set (filter (sublist (mk t)) atlases)"
    by (rule combinations_subset[OF c])
  with t show ?thesis by auto
qed

lemma product_Nil_right: "List.product xs [] = []"
  by (induction xs) simp_all

text \<open>
  \<^verbatim>\<open>os.path.basename\<close> of a path returns what follows its last slash, and the
  marker of a target is the tag \<open>target-\<close> followed by the Python slice of that name.
\<close>

lemma basename_append:
  assumes "CHR ''/'' \<notin> set base" and "dir = [] \<or> last dir = CHR ''/''"
  shows "basename (dir @ base) = base"
proof -
  have a: "takeWhile (\<lambda>c. c \<noteq> CHR ''/'') (rev base @ rev dir)
             = rev base @ takeWhile (\<lambda>c. c \<noteq> CHR ''/'') (rev dir)"
    using assms(1) by (intro takeWhile_append2) auto
  have b: "takeWhile (\<lambda>c. c \<noteq> CHR ''/'') (rev dir) = []"
  proof (cases "dir = []")
    case True
    then show ?thesis by simp
  next
    case False
    with assms(2) have "hd (rev dir) = CHR ''/''" by (simp add: hd_rev)
    with False show ?thesis by (cases "rev dir") auto
  qed
  show ?thesis by (simp add: basename_def a b)
qed

lemma target_marker_explicit:
  assumes "CHR ''/'' \<notin> set base" and "dir = [] \<or> last dir = CHR ''/''"
  shows "target_marker self (dir @ base) =
           ''target-'' @
             (let n = length base;
                  b = image_name_index_begin self;
                  e = image_name_index_end self;
                  lo = (if b < 0 then nat (max 0 (int n + b)) else min (nat b) n);
                  hi = (if e < 0 then nat (max 0 (int n + e)) else min (nat e) n)
              in take (hi - lo) (drop lo base))"
  by (simp add: target_marker_def basename_append[OF assms] py_slice_def slice_index_def Let_def)

text \<open>
  Claim C9. In multi-stage mode the marker of a target is \<open>'target-'\<close> followed by
  \<open>basename[begin:end]\<close>, the slice of the target's base name (what follows the last
  slash) between the two configured indices, negative indices counting from the end and
  indices beyond the name being clipped. The atlas names are screened for each target to
  exactly those containing its marker, the combinations are drawn from the screened names
  only, and so every atlas of every sample key contains the marker of the key's target.
\<close>

theorem multi_stage_pairing:
  assumes "arg_stage args = ''multi''"
    and "arg_target_modality args \<in> {''mr'', ''ct''}"
    and "arg_atlas_modality args \<in> {''mr'', ''ct''}"
    and "int (length (arg_label_intensity args)) = arg_n_class args"
    and "0 \<le> arg_n_atlas args"
    and "targets = filter (sublist (arg_image_suffix args)) target_files"
    and "atlases = filter (sublist (arg_image_suffix args)) atlas_files"
    and "targets \<noteq> []"
  shows "\<exists>self. init args target_files atlas_files = Inr self \<and>
           (\<forall>dir base. CHR ''/'' \<notin> set base \<and> (dir = [] \<or> last dir = CHR ''/'') \<longrightarrow>
              target_marker self (dir @ base) =
                ''target-'' @
                  (let n = length base;
                       b = arg_image_name_index_begin args;
                       e = arg_image_name_index_end args;
                       lo = (if b < 0 then nat (max 0 (int n + b)) else min (nat b) n);
                       hi = (if e < 0 then nat (max 0 (int n + e)) else min (nat e) n)
                   in take (hi - lo) (drop lo base))) \<and>
           target_atlas_image_names self =
             concat (map (\<lambda>t. List.product [t]
               (combinations (filter (sublist (target_marker self t)) atlases)
                  (nat (arg_n_atlas args)))) targets) \<and>
           (\<forall>(t, combo) \<in> set (target_atlas_image_names self).
              t \<in> set targets \<and>
              (\<forall>a \<in> set combo. a \<in> set atlases \<and> sublist (target_marker self t) a))"
proof -
  let ?n = "nat (arg_n_atlas args)"
  let ?base = "init_fields args"
  let ?keys = "concat (map (\<lambda>t. List.product [t]
               (combinations (filter (sublist (target_marker ?base t)) atlases) ?n)) targets)"
  let ?self = "?base\<lparr>target_atlas_image_names := ?keys\<rparr>"
  have s0: "stage ?base = ''multi''" "n_atlas ?base = arg_n_atlas args"
    using assms(1) by (simp_all add: init_fields_def)
  have "find_data_names ?base target_files atlas_files (arg_image_suffix args) = Inr ?keys"
    using find_data_names_multi[of ?base "arg_image_suffix args" target_files atlas_files]
      s0 assms(5-8) by simp
  then have i: "init args target_files atlas_files = Inr ?self"
    using init_valid[OF _ assms(2-4)] assms(1) by simp
  have m: "target_marker ?self = target_marker ?base"
    by (rule ext) (simp add: target_marker_def)
  have k: "target_atlas_image_names ?self = ?keys"
    by simp
  have ix: "image_name_index_begin ?base = arg_image_name_index_begin args"
    "image_name_index_end ?base = arg_image_name_index_end args"
    by (simp_all add: init_fields_def)
  have e: "\<forall>dir base. CHR ''/'' \<notin> set base \<and> (dir = [] \<or> last dir = CHR ''/'') \<longrightarrow>
              target_marker ?base (dir @ base) =
                ''target-'' @
                  (let n = length base;
                       b = arg_image_name_index_begin args;
                       e = arg_image_name_index_end args;
                       lo = (if b < 0 then nat (max 0 (int n + b)) else min (nat b) n);
                       hi = (if e < 0 then nat (max 0 (int n + e)) else min (nat e) n)
                   in take (hi - lo) (drop lo base))"
    using target_marker_explicit[of _ _ ?base] unfolding ix by blast
  have keys: "\<forall>(t, combo) \<in> set ?keys.
          t \<in> set targets \<and>
          (\<forall>a \<in> set combo. a \<in> set atlases \<and> sublist (target_marker ?base t) a)"
    using find_data_names_multi_keys[of _ _ "target_marker ?base" atlases ?n targets]
    by blast
  show ?thesis
  proof (rule exI[of _ ?self], unfold m k, intro conjI)
    show "init args target_files atlas_files = Inr ?self"
      by (rule i)
    show "\<forall>dir base. CHR ''/'' \<notin> set base \<and> (dir = [] \<or> last dir = CHR ''/'') \<longrightarrow>
              target_marker ?base (dir @ base) =
                ''target-'' @
                  (let n = length base;
                       b = arg_image_name_index_begin args;
                       e = arg_image_name_index_end args;
                       lo = (if b < 0 then nat (max 0 (int n + b)) else min (nat b) n);
                       hi = (if e < 0 then nat (max 0 (int n + e)) else min (nat e) n)
                   in take (hi - lo) (drop lo base))"
      by (rule e)
    show "?keys = ?keys"
      by (rule refl)
    show "\<forall>(t, combo) \<in> set ?keys.
          t \<in> set targets \<and>
          (\<forall>a \<in> set combo. a \<in> set atlases \<and> sublist (target_marker ?base t) a)"
      by (rule keys)
  qed
qed

text \<open>
  The theorem at two targets and five atlas names, with \<open>begin = 0\<close> and
  \<open>end = -6\<close>: the markers are \<open>target-p1\<close> and \<open>target-p2\<close>, and the atlas
  \<open>other-p1_a5_image\<close>, which holds the slice \<open>p1\<close> without the tag, is in no key.
\<close>

theorem multi_stage_pairing_witness:
  "\<exists>self. init (default_args\<lparr>arg_stage := ''multi'', arg_n_atlas := 2,
                    arg_image_name_index_end := - 6\<rparr>) two_targets five_atlases = Inr self \<and>
     target_marker self ''data/p1_image'' = ''target-p1'' \<and>
     target_marker self ''data/p2_image'' = ''target-p2'' \<and>
     target_atlas_image_names self =
       [(''data/p1_image'', [''target-p1_a1_image'', ''target-p1_a2_image'']),
        (''data/p2_image'', [''target-p2_a3_image'', ''target-p2_a4_image''])]"
proof -
  let ?args = "default_args\<lparr>arg_stage := ''multi'', arg_n_atlas := 2,
                    arg_image_name_index_end := - 6\<rparr>"
  have t: "two_targets = filter (sublist (arg_image_suffix ?args)) two_targets"
    by (simp add: default_args_def two_targets_def sublist_code)
  have a: "five_atlases = filter (sublist (arg_image_suffix ?args)) five_atlases"
    by (simp add: default_args_def five_atlases_def sublist_code)
  have v: "arg_stage ?args = ''multi''" "arg_target_modality ?args \<in> {''mr'', ''ct''}"
    "arg_atlas_modality ?args \<in> {''mr'', ''ct''}"
    "int (length (arg_label_intensity ?args)) = arg_n_class ?args" "0 \<le> arg_n_atlas ?args"
    by (simp_all add: default_args_def)
  have n: "two_targets \<noteq> []" by (simp add: two_targets_def)
  from multi_stage_pairing[OF v t a n] obtain self where
    i: "init ?args two_targets five_atlases = Inr self"
    and e: "\<And>dir base. CHR ''/'' \<notin> set base \<Longrightarrow> dir = [] \<or> last dir = CHR ''/'' \<Longrightarrow>
              target_marker self (dir @ base) =
                ''target-'' @
                  (let n = length base;
                       b = arg_image_name_index_begin ?args;
                       e = arg_image_name_index_end ?args;
                       lo = (if b < 0 then nat (max 0 (int n + b)) else min (nat b) n);
                       hi = (if e < 0 then nat (max 0 (int n + e)) else min (nat e) n)
                   in take (hi - lo) (drop lo base))"
    and k: "target_atlas_image_names self =
             concat (map (\<lambda>t. List.product [t]
               (combinations (filter (sublist (target_marker self t)) five_atlases)
                  (nat (arg_n_atlas ?args)))) two_targets)"
    by blast
  have m: "target_marker self ''data/p1_image'' = ''target-p1''"
    "target_marker self ''data/p2_image'' = ''target-p2''"
    using e[of "''p1_image''" "''data/''"] e[of "''p2_image''" "''data/''"]
    by (simp_all add: default_args_def)
  with k have "target_atlas_image_names self =
       [(''data/p1_image'', [''target-p1_a1_image'', ''target-p1_a2_image'']),
        (''data/p2_image'', [''target-p2_a3_image'', ''target-p2_a4_image''])]"
    by (simp add: two_targets_def five_atlases_def default_args_def sublist_code numeral_2_eq_2)
  with i m show ?thesis by blast
qed

text \<open>
  Claim C10. In single-stage mode with at least one target found and fewer atlas names
  than \<^verbatim>\<open>n_atlas\<close>, construction raises nothing and \<^verbatim>\<open>len()\<close> is 0 (the
  enumerations and the number of label intensities being valid, which the constructor
  asserts independently of the names).
\<close>

theorem too_few_atlases_empty_dataset:
  assumes "arg_stage args = ''single''"
    and "arg_target_modality args \<in> {''mr'', ''ct''}"
    and "arg_atlas_modality args \<in> {''mr'', ''ct''}"
    and "int (length (arg_label_intensity args)) = arg_n_class args"
    and "filter (sublist (arg_image_suffix args)) target_files \<noteq> []"
    and "int (length (filter (sublist (arg_image_suffix args)) atlas_files)) < arg_n_atlas args"
  shows "\<exists>self. init args target_files atlas_files = Inr self \<and>
           target_atlas_image_names self = [] \<and> len self = 0"
proof -
  let ?base = "init_fields args"
  have s0: "stage ?base = ''single''" "n_atlas ?base = arg_n_atlas args"
    using assms(1) by (simp_all add: init_fields_def)
  from assms(6) have n: "0 \<le> arg_n_atlas args"
    and "length (filter (sublist (arg_image_suffix args)) atlas_files) < nat (arg_n_atlas args)"
    by linarith+
  then have "combinations (filter (sublist (arg_image_suffix args)) atlas_files)
               (nat (arg_n_atlas args)) = []"
    by (simp add: combinations_short)
  then have "find_data_names ?base target_files atlas_files (arg_image_suffix args) = Inr []"
    using find_data_names_single[of ?base "arg_image_suffix args" target_files atlas_files]
      s0 n assms(5) by (simp add: product_Nil_right)
  then have "init args target_files atlas_files = Inr (?base\<lparr>target_atlas_image_names := []\<rparr>)"
    using init_valid[OF _ assms(2-4)] assms(1) by simp
  then show ?thesis by (simp add: len_def)
qed

theorem too_few_atlases_empty_dataset_witness:
  "\<exists>self. init (default_args\<lparr>arg_n_atlas := 4\<rparr>) three_targets three_atlases = Inr self \<and>
     target_atlas_image_names self = [] \<and> len self = 0"
proof -
  let ?args = "default_args\<lparr>arg_n_atlas := 4\<rparr>"
  have v: "arg_stage ?args = ''single''" "arg_target_modality ?args \<in> {''mr'', ''ct''}"
    "arg_atlas_modality ?args \<in> {''mr'', ''ct''}"
    "int (length (arg_label_intensity ?args)) = arg_n_class ?args"
    by (simp_all add: default_args_def)
  have t: "filter (sublist (arg_image_suffix ?args)) three_targets \<noteq> []"
    by (simp add: default_args_def three_targets_def sublist_code)
  have a: "int (length (filter (sublist (arg_image_suffix ?args)) three_atlases))
             < arg_n_atlas ?args"
    by (simp add: default_args_def three_atlases_def sublist_code)
  show ?thesis
    by (rule too_few_atlases_empty_dataset[OF v t a])
qed

subsection \<open>One-hot labels\<close>

lemma entry_set_channel:
  "entry (set_channel a k v) (idx @ [c]) = (if c = k then v idx else entry a (idx @ [c]))"
  by (simp add: set_channel_def)

lemma shape_set_channel: "shape (set_channel a k v) = shape a"
  by (simp add: set_channel_def)

lemma label_loop_Inr:
  assumes "\<forall>k \<in> set ks. k < length (label_intensity self)"
  shows "\<exists>label'. label_loop self gt ks label = Inr label' \<and> shape label' = shape label \<and>
           (\<forall>idx c. entry label' (idx @ [c]) =
              (if c \<in> set ks then (if entry gt idx = label_intensity self ! c then 1 else 0)
               else entry label (idx @ [c])))"
  using assms
proof (induction ks arbitrary: label)
  case Nil
  then show ?case by simp
next
  case (Cons k ks)
  let ?l = "set_channel label k (\<lambda>idx. if entry gt idx = label_intensity self ! k then 1 else 0)"
  from Cons.prems have k: "k < length (label_intensity self)"
    and ks: "\<forall>k \<in> set ks. k < length (label_intensity self)" by simp_all
  from Cons.IH[OF ks, of ?l] obtain label' where
    l: "label_loop self gt ks ?l = Inr label'" "shape label' = shape ?l"
    and e: "\<forall>idx c. entry label' (idx @ [c]) =
              (if c \<in> set ks then (if entry gt idx = label_intensity self ! c then 1 else 0)
               else entry ?l (idx @ [c]))"
    by blast
  have "label_loop self gt (k # ks) label = Inr label'"
    using k l(1) by simp
  moreover have "shape label' = shape label"
    using l(2) by (simp add: shape_set_channel)
  moreover have "\<forall>idx c. entry label' (idx @ [c]) =
              (if c \<in> set (k # ks) then (if entry gt idx = label_intensity self ! c then 1 else 0)
               else entry label (idx @ [c]))"
    using e by (simp add: entry_set_channel)
  ultimately show ?case by blast
qed

lemma sum_list_indicator:
  "distinct xs \<Longrightarrow>
   sum_list (map (\<lambda>y. if x = y then 1 else 0) xs) = (if x \<in> set xs then 1 else (0::real))"
  by (induction xs) auto

lemma map_nth_tl: "map (\<lambda>c. xs ! c) [1..<length xs] = tl xs"
  by (rule nth_equalityI) (auto simp: nth_tl)

lemma foreground_count:
  assumes "distinct (tl li)"
  shows "sum_list (map (\<lambda>c. if x = li ! c then 1 else 0) [1..<length li])
           = (if x \<in> set (tl li) then 1 else (0::real))"
proof -
  have "map (\<lambda>c. if x = li ! c then 1 else (0::real)) [1..<length li]
          = map (\<lambda>y. if x = y then 1 else 0) (map (\<lambda>c. li ! c) [1..<length li])"
    by (simp add: comp_def)
  then show ?thesis
    using sum_list_indicator[OF assms, of x] by (simp only: map_nth_tl)
qed

lemma process_label_Inr:
  assumes "0 < n_class self"
    and "int (length (label_intensity self)) = n_class self"
  shows "\<exists>out. process_label self gt = Inr out \<and>
           shape out = 1 # shape gt @ [length (label_intensity self)] \<and>
           (\<forall>b idx c. 1 \<le> c \<and> c < length (label_intensity self) \<longrightarrow>
              entry out (b # idx @ [c]) =
                (if np_around (entry gt idx) = label_intensity self ! c then 1 else 0)) \<and>
           (\<forall>b idx. entry out (b # idx @ [0]) =
                (if sum_list (map (\<lambda>c. entry out (b # idx @ [c]))
                       [1..<length (label_intensity self)]) = 0 then 1 else 0))"
proof -
  let ?li = "label_intensity self"
  let ?n = "length ?li"
  let ?gt = "amap np_around gt"
  from assms have n: "nat (n_class self) = ?n" "0 < ?n" "\<not> n_class self < 0" by auto
  have "\<forall>k \<in> set [1..<?n]. k < ?n" by simp
  from label_loop_Inr[OF this, of ?gt "zeros (shape ?gt @ [?n])"] obtain label where
    l: "label_loop self ?gt [1..<?n] (zeros (shape ?gt @ [?n])) = Inr label"
    and sh: "shape label = shape ?gt @ [?n]"
    and e: "\<forall>idx c. entry label (idx @ [c]) =
              (if c \<in> set [1..<?n] then (if entry ?gt idx = ?li ! c then 1 else 0)
               else 0)"
    unfolding zeros_def by (simp only: ndarray.simps) blast
  let ?out = "expand_dims_first
     (set_channel label 0 (\<lambda>idx. if foreground_sum label ?n idx = 0 then 1 else 0))"
  have p: "process_label self gt = Inr ?out"
    using n l by (simp add: process_label_def Let_def)
  have s: "shape ?out = 1 # shape gt @ [?n]"
    using sh by (simp add: expand_dims_first_def shape_set_channel amap_def)
  have c: "entry ?out (b # idx @ [c]) =
             (if np_around (entry gt idx) = ?li ! c then 1 else 0)"
    if "1 \<le> c \<and> c < ?n" for b idx c
    using that e by (simp add: expand_dims_first_def entry_set_channel amap_def)
  have fs: "foreground_sum label ?n idx =
      sum_list (map (\<lambda>c. entry ?out (b # idx @ [c])) [1..<?n])" for b idx
    unfolding foreground_sum_def
    by (rule arg_cong[where f = sum_list], rule map_cong)
       (simp_all add: expand_dims_first_def entry_set_channel)
  have z: "entry ?out (b # idx @ [0]) =
             (if sum_list (map (\<lambda>c. entry ?out (b # idx @ [c])) [1..<?n]) = 0 then 1 else 0)"
    for b idx
    using fs[of idx b] by (simp add: expand_dims_first_def entry_set_channel)
  from p s c z show ?thesis by blast
qed


text \<open>
  Claim C6, amended. With at least one class, as many label intensities as classes and
  pairwise distinct foreground intensities \<^verbatim>\<open>label_intensity[1:]\<close>,
  \<^verbatim>\<open>_process_label\<close> returns, for a label volume of shape \<open>[nx, ny, nz]\<close>, a tensor
  of shape \<open>[1, nx, ny, nz, n_class]\<close>; at every voxel channel \<open>c \<ge> 1\<close> is the indicator
  of the rounded label being \<^verbatim>\<open>label_intensity[c]\<close>, channel 0 is the negation of the
  union of the other channels, and the channels sum to 1.
\<close>

theorem process_label_one_hot:
  assumes "0 < n_class self"
    and "int (length (label_intensity self)) = n_class self"
    and "distinct (tl (label_intensity self))"
    and "shape gt = [nx, ny, nz]"
  shows "\<exists>out. process_label self gt = Inr out \<and>
           shape out = [1, nx, ny, nz, nat (n_class self)] \<and>
           (\<forall>i<nx. \<forall>j<ny. \<forall>k<nz.
              (\<forall>c. 1 \<le> c \<and> c < nat (n_class self) \<longrightarrow>
                 entry out [0, i, j, k, c] =
                   (if np_around (entry gt [i, j, k]) = label_intensity self ! c then 1 else 0)) \<and>
              entry out [0, i, j, k, 0] =
                (if \<exists>c. 1 \<le> c \<and> c < nat (n_class self) \<and> entry out [0, i, j, k, c] \<noteq> 0
                 then 0 else 1) \<and>
              (\<Sum>c<nat (n_class self). entry out [0, i, j, k, c]) = 1)"
proof -
  let ?li = "label_intensity self"
  let ?n = "length ?li"
  from assms(1,2) have n: "nat (n_class self) = ?n" "0 < ?n" by auto
  from process_label_Inr[OF assms(1,2), of gt] obtain out where
    p: "process_label self gt = Inr out"
    and s: "shape out = 1 # shape gt @ [?n]"
    and c: "\<And>b idx c. 1 \<le> c \<and> c < ?n \<Longrightarrow>
              entry out (b # idx @ [c]) =
                (if np_around (entry gt idx) = ?li ! c then 1 else 0)"
    and z: "\<And>b idx. entry out (b # idx @ [0]) =
                (if sum_list (map (\<lambda>c. entry out (b # idx @ [c])) [1..<?n]) = 0 then 1 else 0)"
    by blast
  have voxel: "(\<forall>c. 1 \<le> c \<and> c < ?n \<longrightarrow>
                 entry out [0, i, j, k, c] =
                   (if np_around (entry gt [i, j, k]) = ?li ! c then 1 else 0)) \<and>
              entry out [0, i, j, k, 0] =
                (if \<exists>c. 1 \<le> c \<and> c < ?n \<and> entry out [0, i, j, k, c] \<noteq> 0 then 0 else 1) \<and>
              (\<Sum>c<?n. entry out [0, i, j, k, c]) = 1" for i j k
  proof -
    let ?x = "np_around (entry gt [i, j, k])"
    let ?f = "\<lambda>c. entry out [0, i, j, k, c]"
    have ch: "?f c = (if ?x = ?li ! c then 1 else 0)" if "1 \<le> c \<and> c < ?n" for c
      using c[OF that, of 0 "[i, j, k]"] by simp
    have m: "map ?f [1..<?n] = map (\<lambda>c. if ?x = ?li ! c then 1 else 0) [1..<?n]"
      by (rule map_cong) (simp_all add: ch)
    have fg: "sum_list (map ?f [1..<?n]) = (if ?x \<in> set (tl ?li) then 1 else 0)"
      unfolding m by (rule foreground_count[OF assms(3)])
    have z0: "?f 0 = (if sum_list (map ?f [1..<?n]) = 0 then 1 else 0)"
      using z[of 0 "[i, j, k]"] by simp
    have mem: "?x \<in> set (tl ?li) \<longleftrightarrow> (\<exists>c. 1 \<le> c \<and> c < ?n \<and> ?f c \<noteq> 0)"
    proof
      assume "?x \<in> set (tl ?li)"
      then have "?x \<in> set (map (\<lambda>c. ?li ! c) [1..<?n])" by (simp only: map_nth_tl)
      then obtain c where "1 \<le> c" "c < ?n" "?x = ?li ! c" by auto
      then show "\<exists>c. 1 \<le> c \<and> c < ?n \<and> ?f c \<noteq> 0" using ch[of c] by auto
    next
      assume "\<exists>c. 1 \<le> c \<and> c < ?n \<and> ?f c \<noteq> 0"
      then obtain c where cc: "1 \<le> c \<and> c < ?n" and "?f c \<noteq> 0" by blast
      then have "?x = ?li ! c" using ch[OF cc] by (simp split: if_splits)
      then have "?x \<in> set (map (\<lambda>c. ?li ! c) [1..<?n])" using cc by auto
      then show "?x \<in> set (tl ?li)" by (simp only: map_nth_tl)
    qed
    have "(\<Sum>c<?n. ?f c) = sum ?f {0..<?n}"
      by (simp add: atLeast0LessThan)
    also have "\<dots> = ?f 0 + sum ?f {Suc 0..<?n}"
      using n(2) by (simp add: sum.atLeast_Suc_lessThan)
    also have "sum ?f {Suc 0..<?n} = sum_list (map ?f [1..<?n])"
      by (simp add: interv_sum_list_conv_sum_set_nat)
    finally have total: "(\<Sum>c<?n. ?f c) = ?f 0 + sum_list (map ?f [1..<?n])" .
    have bg: "?f 0 = (if ?x \<in> set (tl ?li) then 0 else 1)"
      using z0 fg by simp
    have one: "(\<Sum>c<?n. ?f c) = 1"
      using total bg fg by simp
    show ?thesis
      unfolding mem[symmetric] using ch bg one by blast
  qed
  from p s voxel show ?thesis
    using assms(4) n(1) by auto
qed

theorem process_label_one_hot_witness:
  "\<exists>out. process_label default_provider two_voxel_label = Inr out \<and>
     shape out = [1, 1, 1, 2, 2] \<and>
     entry out [0, 0, 0, 1, 1] = 1 \<and> entry out [0, 0, 0, 1, 0] = 0 \<and>
     (\<Sum>c<2. entry out [0, 0, 0, 1, c]) = 1"
proof -
  have h: "0 < n_class default_provider"
    "int (length (label_intensity default_provider)) = n_class default_provider"
    "distinct (tl (label_intensity default_provider))"
    "shape two_voxel_label = [1, 1, 2]"
    by (simp_all add: default_provider_def init_fields_def default_args_def two_voxel_label_def)
  from process_label_one_hot[OF h] obtain out where
    o: "process_label default_provider two_voxel_label = Inr out"
      "shape out = [1, 1, 1, 2, nat (n_class default_provider)]"
    and v: "\<forall>i<1. \<forall>j<1. \<forall>k<2.
              (\<forall>c. 1 \<le> c \<and> c < nat (n_class default_provider) \<longrightarrow>
                 entry out [0, i, j, k, c] =
                   (if np_around (entry two_voxel_label [i, j, k])
                       = label_intensity default_provider ! c then 1 else 0)) \<and>
              entry out [0, i, j, k, 0] =
                (if \<exists>c. 1 \<le> c \<and> c < nat (n_class default_provider)
                       \<and> entry out [0, i, j, k, c] \<noteq> 0
                 then 0 else 1) \<and>
              (\<Sum>c<nat (n_class default_provider). entry out [0, i, j, k, c]) = 1"
    by blast
  have n: "nat (n_class default_provider) = 2"
    "label_intensity default_provider ! 1 = 205"
    "np_around (entry two_voxel_label [0, 0, 1]) = 205"
    by (simp_all add: default_provider_def init_fields_def default_args_def two_voxel_label_def
          np_around_def)
  from v have v1: "(\<forall>c. 1 \<le> c \<and> c < nat (n_class default_provider) \<longrightarrow>
                 entry out [0, 0, 0, 1, c] =
                   (if np_around (entry two_voxel_label [0, 0, 1])
                       = label_intensity default_provider ! c then 1 else 0))"
    and v2: "(\<Sum>c<nat (n_class default_provider). entry out [0, 0, 0, 1, c]) = 1"
    by simp_all
  from v1 have c1: "entry out [0, 0, 0, 1, 1] = 1"
    using n by simp
  from v2 have s: "(\<Sum>c<2. entry out [0, 0, 0, 1, c]) = 1"
    using n(1) by simp
  then have "entry out [0, 0, 0, 1, 0] = 0"
    using c1 by (simp add: numeral_2_eq_2)
  with o c1 s n(1) show ?thesis by auto
qed

lemma upt_Suc_0_3: "[Suc 0..<3] = [Suc 0, 2]"
  by (simp add: upt_rec)

lemma upt_0_3: "[0..<3] = [0, Suc 0, 2]"
  by (simp add: upt_rec)

text \<open>
  Claim C6 as stated fails without the two conditions: with the intensity 205 listed
  for two classes, the channels of a voxel of intensity 205 are 0, 1, 1 and sum to 2;
  with no class at all the encoding raises.
\<close>

theorem process_label_one_hot_counterexample:
  "channels_at (process_label duplicate_intensity_provider two_voxel_label) [0, 0, 0, 1] 3
     = Inr [0, 1, 1] \<and>
   map_sum id sum_list
     (channels_at (process_label duplicate_intensity_provider two_voxel_label) [0, 0, 0, 1] 3)
     = Inr 2 \<and>
   process_label no_class_provider two_voxel_label = Inl IndexError"
proof -
  have a: "channels_at (process_label duplicate_intensity_provider two_voxel_label) [0, 0, 0, 1] 3
     = Inr [0, 1, 1]"
    by (simp add: channels_at_def process_label_def duplicate_intensity_provider_def
        init_fields_def default_args_def two_voxel_label_def
        Let_def upt_Suc_0_3 upt_0_3 zeros_def amap_def set_channel_def expand_dims_first_def
        foreground_sum_def np_around_def)
  have b: "process_label no_class_provider two_voxel_label = Inl IndexError"
    by (simp add: process_label_def no_class_provider_def init_fields_def default_args_def
        Let_def)
  from a b show ?thesis by simp
qed


subsection \<open>Empty foreground\<close>

lemma argwhere_empty:
  assumes "\<forall>idx \<in> set (indices (shape label)). entry label idx \<notin> set ks"
  shows "argwhere (amap (\<lambda>v. list_ex (\<lambda>k. v = k) ks) label) = []"
  using assms by (auto simp: argwhere_def amap_def list_ex_iff filter_empty_conv)

lemma indices_1_1_2: "indices [1, 1, 2] = [[0, 0, 0], [0, 0, 1]]"
  by (simp add: indices_def upt_rec numeral_2_eq_2)

text \<open>
  Claim C7 does not hold of the code. For a label volume no voxel of which has an
  intensity of \<^verbatim>\<open>label_intensity[1:]\<close>, \<^verbatim>\<open>get_roi_coordinates\<close> raises
  \<^verbatim>\<open>ValueError\<close>, as claimed, but \<^verbatim>\<open>_get_foreground_center\<close> has no such
  guard: it raises only when \<^verbatim>\<open>label_intensity[1:]\<close> is itself empty, and otherwise
  returns a vector that holds on every axis the conversion of NaN to \<^verbatim>\<open>int16\<close>,
  which is the center of nothing.
\<close>

theorem empty_foreground:
  assumes "\<forall>idx \<in> set (indices (shape label)). entry label idx \<notin> set (tl (label_intensity self))"
  shows "get_roi_coordinates self label mag_rate = Inl ValueError \<and>
         get_foreground_center nan_as_int16 self label =
           (if tl (label_intensity self) = [] then Inl ValueError
            else Inr (replicate (length (shape label)) nan_as_int16))"
  using argwhere_empty[OF assms]
  by (simp add: get_roi_coordinates_def get_foreground_center_def foreground_flag_def)

text \<open>
  The theorem at the background-only volume of shape 1 x 1 x 2 and the default
  intensities (0, 205), with magnification rate 0.1: the foreground center is returned,
  as (0, 0, 0) where NaN converts to 0 and as (-32768, -32768, -32768) where it converts
  to -32768.
\<close>

theorem empty_foreground_witness:
  "get_roi_coordinates default_provider background_label (1 / 10) = Inl ValueError \<and>
   get_foreground_center 0 default_provider background_label = Inr [0, 0, 0] \<and>
   get_foreground_center (- 32768) default_provider background_label
     = Inr [- 32768, - 32768, - 32768]"
  using empty_foreground[of background_label default_provider "1 / 10" 0]
    empty_foreground[of background_label default_provider "1 / 10" "- 32768"]
  by (simp add: background_label_def default_provider_def init_fields_def default_args_def
        indices_1_1_2 numeral_3_eq_3)

subsection \<open>Intensities\<close>

lemma indices_ramp: "indices [Suc 0, Suc 0, 3] = [[0, 0, 0], [0, 0, 1], [0, 0, 2]]"
  by (simp add: indices_def upt_rec numeral_3_eq_3)

lemma flat_ramp: "flat ramp_volume = [0, 1, 2]"
  by (simp add: flat_def ramp_volume_def indices_ramp)

lemma product_lists_snoc:
  "product_lists (xss @ [[x]]) = map (\<lambda>idx. idx @ [x]) (product_lists xss)"
  by (induction xss) (simp_all add: comp_def map_concat)

lemma indices_expand:
  "indices (Suc 0 # sh @ [Suc 0]) = map (\<lambda>idx. 0 # idx @ [0]) (indices sh)"
  unfolding indices_def by (simp add: product_lists_snoc comp_def)

text \<open>The two added axes of length 1 do not change the list of the entries.\<close>

lemma flat_expand: "flat (expand_dims_first (expand_dims_last a)) = flat a"
  by (simp add: flat_def expand_dims_first_def expand_dims_last_def indices_expand comp_def)

lemma flat_expand_and_tile:
  "channels self = 1 \<Longrightarrow> map_sum id flat (expand_and_tile self a) = Inr (flat a)"
  by (simp add: expand_and_tile_def tile_channels_def flat_expand)

text \<open>What line 79 stores: the upper bound depends on whether \<^verbatim>\<open>a_min\<close> was given.\<close>

lemma init_upper_bound:
  "a_max (init_fields args) =
     (case arg_a_min args of
        None \<Rightarrow> PosInf
      | Some l \<Rightarrow> (case arg_a_max args of None \<Rightarrow> PyNone | Some u \<Rightarrow> Upper u))"
  by (simp add: init_fields_def split: option.splits)

lemma clip_unbounded:
  "a_min self = NegInf \<Longrightarrow> a_max self = PosInf \<Longrightarrow> clip_data self data ''ct'' = Inr data"
  by (simp add: clip_data_def np_clip_def amap_def)

text \<open>
  Claim C3 does not hold of the code. A provider constructed with \<^verbatim>\<open>a_max=1\<close> and
  \<^verbatim>\<open>a_min\<close> unset stores the bounds \<open>-inf\<close> and \<open>+inf\<close>, and processing the
  volume with intensities 0, 1, 2 as \<open>ct\<close>, without normalisation, returns 0, 1, 2:
  the intensity 2 is not clipped to the configured upper bound 1.
\<close>

theorem ct_upper_bound_ignored:
  "a_min upper_only_provider = NegInf \<and> a_max upper_only_provider = PosInf \<and>
   map_sum id flat
     (fst (process_image (\<lambda>d. d) upper_only_provider ramp_volume ''ct'' False False))
     = Inr [Finite 0, Finite 1, Finite 2]"
proof -
  have b: "a_min upper_only_provider = NegInf" "a_max upper_only_provider = PosInf"
    "channels upper_only_provider = 1"
    by (simp_all add: upper_only_provider_def init_fields_def default_args_def)
  have "flat (amap Finite ramp_volume) = [Finite 0, Finite 1, Finite 2]"
    by (simp add: flat_def amap_def ramp_volume_def indices_ramp)
  then show ?thesis
    by (simp add: b process_image_def clip_unbounded flat_expand_and_tile)
qed

lemma zscore_ramp: "flat (zscore ramp_volume) = [Finite (- 1), Finite 0, Finite 1]"
  by (simp add: zscore_def flat_ramp Let_def power2_eq_square)
     (simp add: flat_def amap_def ramp_volume_def indices_ramp)

lemma min_max_ramp:
  "map_sum id flat (min_max ramp_volume) = Inr [Finite 0, Finite (1 / 2), Finite 1]"
  by (simp add: min_max_def flat_ramp Let_def)
     (simp add: flat_def amap_def ramp_volume_def indices_ramp)

text \<open>
  Claim C4 does not hold of the code. On a provider constructed with
  \<^verbatim>\<open>normalization_method='min-max'\<close>, the first normalised call scales the intensities
  0, 1, 2 to 0, 1/2, 1 and leaves the provider without the key
  \<^verbatim>\<open>normalization_method\<close>; the second call on the provider so left returns the
  z-scores -1, 0, 1.
\<close>

theorem normalization_method_popped:
  "kwargs min_max_provider ''normalization_method'' = Some ''min-max'' \<and>
   map_sum id flat
     (fst (process_image (\<lambda>d. d) min_max_provider ramp_volume ''ct'' True False))
     = Inr [Finite 0, Finite (1 / 2), Finite 1] \<and>
   kwargs (snd (process_image (\<lambda>d. d) min_max_provider ramp_volume ''ct'' True False))
     ''normalization_method'' = None \<and>
   map_sum id flat
     (fst (process_image (\<lambda>d. d)
        (snd (process_image (\<lambda>d. d) min_max_provider ramp_volume ''ct'' True False))
        ramp_volume ''ct'' True False))
     = Inr [Finite (- 1), Finite 0, Finite 1]"
proof -
  let ?popped = "min_max_provider\<lparr>kwargs := (kwargs min_max_provider)(''normalization_method'' := None)\<rparr>"
  have k: "kwargs min_max_provider ''normalization_method'' = Some ''min-max''"
    by (simp add: min_max_provider_def init_fields_def default_args_def)
  have b: "a_min min_max_provider = NegInf" "a_max min_max_provider = PosInf"
    "channels min_max_provider = 1"
    by (simp_all add: min_max_provider_def init_fields_def default_args_def)
  obtain d where d: "min_max ramp_volume = Inr d" "flat d = [Finite 0, Finite (1 / 2), Finite 1]"
    using min_max_ramp by (cases "min_max ramp_volume") auto
  have first: "process_image (\<lambda>d. d) min_max_provider ramp_volume ''ct'' True False
                 = (expand_and_tile ?popped d, ?popped)"
    by (simp add: process_image_def clip_unbounded[OF b(1,2)] k d(1) Let_def)
  have second: "process_image (\<lambda>d. d) ?popped ramp_volume ''ct'' True False
                 = (expand_and_tile ?popped (zscore ramp_volume), ?popped)"
    by (simp add: process_image_def clip_unbounded b Let_def)
  show ?thesis
    unfolding first
    by (simp add: second k b flat_expand_and_tile d(2) zscore_ramp)
qed


subsection \<open>Patch geometry\<close>

lemma broadcast2_same_length:
  "length xs = length ys \<Longrightarrow> broadcast2 f xs ys = Inr (map2 f xs ys)"
  by (simp add: broadcast2_def)

lemma assert_patch_fits_ok:
  assumes "list_all2 (\<lambda>p s. p \<le> int s) ps sh"
  shows "assert_patch_fits ps sh = Inr ()"
proof -
  have l: "length ps = length sh"
    using assms by (rule list_all2_lengthD)
  have "list_all id (map2 (\<lambda>p s. p \<le> int s) ps sh)"
    using assms by (auto simp: list_all_iff list_all2_iff)
  then show ?thesis
    by (simp add: assert_patch_fits_def broadcast2_same_length[OF l] bind_result_def py_assert_def)
qed

lemma assert_patch_fits_cases:
  "assert_patch_fits ps sh = Inr () \<or> assert_patch_fits ps sh = Inl AssertionError
     \<or> assert_patch_fits ps sh = Inl ValueError"
  by (simp add: assert_patch_fits_def broadcast2_def bind_result_def py_assert_def)

lemma choose_center_fixed:
  "fixed_center self \<noteq> [] \<Longrightarrow>
   choose_center self tis target_label ais rnd nan
     = Inr (unbound\<lparr>loc_patch_center := Some (map int16 (fixed_center self))\<rparr>)"
  by (simp add: choose_center_def)

lemma patch_geometry_fixed:
  assumes "fixed_center self \<noteq> []"
  shows "patch_geometry self tis target_label ais als rnd nan =
           bind_result (assert_patch_fits (patch_size self) (shape target_label)) (\<lambda>_.
           bind_result (assert_patch_fits (patch_size self) (butlast als)) (\<lambda>_.
           Inl UnboundLocalError))"
  by (simp add: patch_geometry_def choose_center_fixed[OF assms] bind_result_def unbound_def
        read_local_def split: sum.splits)

text \<open>
  Claim C1 does not hold of the code. With a fixed \<^verbatim>\<open>patch_center\<close> configured, the
  branch of line 169 binds the local \<^verbatim>\<open>patch_center\<close>, which nothing reads; line
  193 reads \<^verbatim>\<open>target_patch_center\<close>, which only the last branch binds. So no
  slicing bounds are ever computed from the configured center: whatever the volumes, the
  cropping raises, and when both patch-size assertions hold it raises
  \<^verbatim>\<open>UnboundLocalError\<close>.
\<close>

theorem fixed_center_unbound:
  assumes "patch_center self = Some c" and "c \<noteq> []"
  shows "(\<forall>g. patch_geometry self target_image_shape target_label atlases_image_shape
                 atlases_label_shape rnd nan_as_int16 \<noteq> Inr g) \<and>
         (list_all2 (\<lambda>p s. p \<le> int s) (patch_size self) (shape target_label) \<and>
          list_all2 (\<lambda>p s. p \<le> int s) (patch_size self) (butlast atlases_label_shape) \<longrightarrow>
            patch_geometry self target_image_shape target_label atlases_image_shape
              atlases_label_shape rnd nan_as_int16 = Inl UnboundLocalError)"
proof -
  have f: "fixed_center self \<noteq> []"
    using assms by (simp add: fixed_center_def)
  show ?thesis
    unfolding patch_geometry_fixed[OF f]
    by (auto simp: bind_result_def assert_patch_fits_ok split: sum.splits)
qed

text \<open>
  The theorem at the center (4, 4, 4) with patches of 4 x 4 x 4 in volumes of 8 x 8 x 8 and
  one atlas, where the claim expects the bounds 2 and 6 on every axis.
\<close>

theorem fixed_center_unbound_witness:
  "patch_center fixed_center_provider = Some [4, 4, 4] \<and>
   patch_geometry fixed_center_provider [8, 8, 8] cube_label [8, 8, 8, 1] [8, 8, 8, 1]
     (\<lambda>i. 0) 0 = Inl UnboundLocalError"
proof -
  have p: "patch_center fixed_center_provider = Some [4, 4, 4]"
    "patch_size fixed_center_provider = [4, 4, 4]"
    by (simp_all add: fixed_center_provider_def patch_args_def init_fields_def default_args_def
          int16_def)
  have n: "[4, 4, 4] \<noteq> ([] :: int list)" by simp
  show ?thesis
    using fixed_center_unbound[OF p(1) n, of "[8, 8, 8]" cube_label "[8, 8, 8, 1]"
        "[8, 8, 8, 1]" "\<lambda>i. 0" 0]
    by (simp add: p cube_label_def)
qed

lemma get_foreground_center_error:
  "get_foreground_center nan self label = Inl e \<Longrightarrow> e = ValueError"
  by (auto simp: get_foreground_center_def foreground_flag_def Let_def split: if_splits sum.splits)

lemma roi_random_center_ambiguous:
  assumes "1 < length ps" and "axes \<noteq> []" and "hd axes < length ps"
  shows "roi_random_center ps sh roi_center rnd axes = Inl ValueError"
  using assms
  by (cases axes) (simp_all add: bind_result_def py_index_def py_max_scalar_array_def)

text \<open>
  Claim C2 does not hold of the code. With \<^verbatim>\<open>random_crop\<close> and \<^verbatim>\<open>crop_roi\<close>
  enabled, no fixed center, and a patch size of more than one axis that passes the two
  assertions, no center is drawn: line 180 takes Python's \<^verbatim>\<open>max\<close> of a number and
  the whole array \<^verbatim>\<open>self.patch_size // 2\<close>, which raises \<^verbatim>\<open>ValueError\<close> on
  the first axis (as \<^verbatim>\<open>_get_foreground_center\<close> does before it when no foreground
  intensity is configured).
\<close>

theorem roi_random_center_raises:
  assumes "patch_center self = None \<or> patch_center self = Some []"
    and "random_crop self" and "crop_roi self"
    and "1 < length (patch_size self)"
    and "list_all2 (\<lambda>p s. p \<le> int s) (patch_size self) (shape target_label)"
    and "list_all2 (\<lambda>p s. p \<le> int s) (patch_size self) (butlast atlases_label_shape)"
  shows "patch_geometry self target_image_shape target_label atlases_image_shape
           atlases_label_shape rnd nan_as_int16 = Inl ValueError"
proof -
  have f: "fixed_center self = []"
    using assms(1) by (auto simp: fixed_center_def)
  have l: "length (shape target_label) = length (patch_size self)"
    using assms(5) by (simp add: list_all2_lengthD)
  have ax: "[0..<length (shape target_label)] \<noteq> []"
    "hd [0..<length (shape target_label)] < length (patch_size self)"
  proof -
    have "0 < length (shape target_label)"
      using assms(4) l by auto
    then have "[0..<length (shape target_label)] = 0 # [Suc 0..<length (shape target_label)]"
      by (simp add: upt_conv_Cons)
    then show "[0..<length (shape target_label)] \<noteq> []"
      "hd [0..<length (shape target_label)] < length (patch_size self)"
      using assms(4) by auto
  qed
  have r: "roi_random_center (patch_size self) (shape target_label) roi_center rnd
             [0..<length (shape target_label)] = Inl ValueError" for roi_center
    by (rule roi_random_center_ambiguous[OF assms(4) ax])
  have c: "choose_center self target_image_shape target_label atlases_image_shape rnd nan_as_int16
             = Inl ValueError"
    using get_foreground_center_error[of nan_as_int16 self target_label]
    by (cases "get_foreground_center nan_as_int16 self target_label")
       (simp_all add: choose_center_def f assms(2,3) bind_result_def r)
  show ?thesis
    by (simp add: patch_geometry_def assert_patch_fits_ok[OF assms(5)]
          assert_patch_fits_ok[OF assms(6)] c bind_result_def)
qed

text \<open>
  The theorem at patches of 4 x 4 x 4 in volumes of 8 x 8 x 8 whose voxel (4, 4, 4) is
  foreground.
\<close>

theorem roi_random_center_raises_witness:
  "random_crop roi_random_provider \<and> crop_roi roi_random_provider \<and>
   patch_center roi_random_provider = None \<and>
   patch_geometry roi_random_provider [8, 8, 8] cube_label [8, 8, 8, 1] [8, 8, 8, 1]
     (\<lambda>i. 0) 0 = Inl ValueError"
proof -
  have p: "patch_center roi_random_provider = None"
    "patch_size roi_random_provider = [4, 4, 4]"
    "random_crop roi_random_provider" "crop_roi roi_random_provider"
    by (simp_all add: roi_random_provider_def patch_args_def init_fields_def default_args_def
          int16_def)
  have g: "patch_geometry roi_random_provider [8, 8, 8] cube_label [8, 8, 8, 1] [8, 8, 8, 1]
     (\<lambda>i. 0) 0 = Inl ValueError"
    using roi_random_center_raises[of roi_random_provider cube_label "[8, 8, 8, 1]"
        "[8, 8, 8]" "[8, 8, 8, 1]" "\<lambda>i. 0" 0]
    by (simp add: p cube_label_def)
  show ?thesis using g p by simp
qed

text \<open>
  What holds of the default center: without fixed center, random cropping and ROI
  cropping, with images of the shapes of their labels, axes of at most 32767 voxels and a
  patch size within the label shapes, the bounds are \<open>shape // 2 - patch_size // 2\<close>
  and that plus the patch size, and lie within the volume.
\<close>

lemma int16_id: "- 32768 \<le> x \<Longrightarrow> x \<le> 32767 \<Longrightarrow> int16 x = x"
  by (simp add: int16_def)

lemma default_axis:
  assumes "p \<le> int s" and "- 32768 \<le> p" and "int s \<le> 32767"
  shows "int16 (int16 (int s) div 2 - p div 2) = int s div 2 - p div 2"
    and "int16 (int s div 2 - p div 2 + p) = int s div 2 - p div 2 + p"
    and "0 \<le> int s div 2 - p div 2"
    and "int s div 2 - p div 2 + p \<le> int s"
proof -
  have s: "int16 (int s) = int s"
    using assms(3) by (simp add: int16_id)
  have h: "0 \<le> int s div 2" "int s div 2 \<le> 16383" "- 16384 \<le> p div 2"
    "p div 2 \<le> int s div 2" "p - p div 2 \<le> int s - int s div 2"
    using assms by presburger+
  show "int16 (int16 (int s) div 2 - p div 2) = int s div 2 - p div 2"
    unfolding s using h by (intro int16_id) linarith+
  show "int16 (int s div 2 - p div 2 + p) = int s div 2 - p div 2 + p"
    using h assms by (intro int16_id) linarith+
  show "0 \<le> int s div 2 - p div 2"
    using h by linarith
  show "int s div 2 - p div 2 + p \<le> int s"
    using h by linarith
qed

lemma default_bounds:
  assumes fits: "list_all2 (\<lambda>p s. p \<le> int s) ps sh"
    and small: "list_all (\<lambda>s. int s \<le> 32767) sh"
    and range: "list_all (\<lambda>p. - 32768 \<le> p) ps"
  shows "broadcast2 (\<lambda>c p. int16 (c - p div 2)) (map (\<lambda>s. int16 (int s) div 2) sh) ps
           = Inr (map2 (\<lambda>s p. int s div 2 - p div 2) sh ps)"
    and "broadcast2 (\<lambda>b p. int16 (b + p)) (map2 (\<lambda>s p. int s div 2 - p div 2) sh ps) ps
           = Inr (map2 (\<lambda>s p. int s div 2 - p div 2 + p) sh ps)"
    and "list_all (\<lambda>b. 0 \<le> b) (map2 (\<lambda>s p. int s div 2 - p div 2) sh ps)"
    and "list_all2 (\<lambda>e s. e \<le> int s) (map2 (\<lambda>s p. int s div 2 - p div 2 + p) sh ps) sh"
proof -
  have l: "length ps = length sh"
    using fits by (rule list_all2_lengthD)
  have ax: "ps ! i \<le> int (sh ! i)" "- 32768 \<le> ps ! i" "int (sh ! i) \<le> 32767"
    if "i < length sh" for i
    using that fits small range l
    by (simp_all add: list_all2_conv_all_nth list_all_length)
  have b: "map2 (\<lambda>c p. int16 (c - p div 2)) (map (\<lambda>s. int16 (int s) div 2) sh) ps
             = map2 (\<lambda>s p. int s div 2 - p div 2) sh ps"
    using l by (intro nth_equalityI) (simp_all add: default_axis(1)[OF ax])
  have e: "map2 (\<lambda>b p. int16 (b + p)) (map2 (\<lambda>s p. int s div 2 - p div 2) sh ps) ps
             = map2 (\<lambda>s p. int s div 2 - p div 2 + p) sh ps"
    using l by (intro nth_equalityI) (simp_all add: default_axis(2)[OF ax])
  show "broadcast2 (\<lambda>c p. int16 (c - p div 2)) (map (\<lambda>s. int16 (int s) div 2) sh) ps
           = Inr (map2 (\<lambda>s p. int s div 2 - p div 2) sh ps)"
    using l by (simp add: broadcast2_same_length b)
  show "broadcast2 (\<lambda>b p. int16 (b + p)) (map2 (\<lambda>s p. int s div 2 - p div 2) sh ps) ps
           = Inr (map2 (\<lambda>s p. int s div 2 - p div 2 + p) sh ps)"
    using l by (simp add: broadcast2_same_length e)
  show "list_all (\<lambda>b. 0 \<le> b) (map2 (\<lambda>s p. int s div 2 - p div 2) sh ps)"
  proof -
    have "\<forall>i<length sh. 0 \<le> int (sh ! i) div 2 - ps ! i div 2"
      using default_axis(3)[OF ax] by blast
    then show ?thesis
      using l by (simp add: list_all_length)
  qed
  show "list_all2 (\<lambda>e s. e \<le> int s) (map2 (\<lambda>s p. int s div 2 - p div 2 + p) sh ps) sh"
  proof -
    have "\<forall>i<length sh. int (sh ! i) div 2 - ps ! i div 2 + ps ! i \<le> int (sh ! i)"
      using default_axis(4)[OF ax] by blast
    then show ?thesis
      using l by (simp add: list_all2_conv_all_nth)
  qed
qed

lemma default_center_in_bounds:
  assumes "patch_center self = None \<or> patch_center self = Some []"
    and "\<not> random_crop self" and "\<not> crop_roi self"
    and "target_image_shape = shape target_label"
    and "butlast atlases_image_shape = butlast atlases_label_shape"
    and "list_all2 (\<lambda>p s. p \<le> int s) (patch_size self) (shape target_label)"
    and "list_all2 (\<lambda>p s. p \<le> int s) (patch_size self) (butlast atlases_label_shape)"
    and "list_all (\<lambda>s. int s \<le> 32767) (shape target_label)"
    and "list_all (\<lambda>s. int s \<le> 32767) (butlast atlases_label_shape)"
    and "list_all (\<lambda>p. - 32768 \<le> p) (patch_size self)"
  shows "\<exists>g. patch_geometry self target_image_shape target_label atlases_image_shape
                atlases_label_shape rnd nan_as_int16 = Inr g \<and>
             target_begin g = map2 (\<lambda>s p. int s div 2 - p div 2)
                                (shape target_label) (patch_size self) \<and>
             target_end g = map2 (\<lambda>b p. b + p) (target_begin g) (patch_size self) \<and>
             list_all (\<lambda>b. 0 \<le> b) (target_begin g) \<and>
             list_all2 (\<lambda>e s. e \<le> int s) (target_end g) (shape target_label) \<and>
             atlas_begin g = map2 (\<lambda>s p. int s div 2 - p div 2)
                                (butlast atlases_label_shape) (patch_size self) \<and>
             atlas_end g = map2 (\<lambda>b p. b + p) (atlas_begin g) (patch_size self) \<and>
             list_all (\<lambda>b. 0 \<le> b) (atlas_begin g) \<and>
             list_all2 (\<lambda>e s. e \<le> int s) (atlas_end g) (butlast atlases_label_shape)"
proof -
  let ?ps = "patch_size self"
  let ?sh = "shape target_label"
  let ?ash = "butlast atlases_label_shape"
  let ?tb = "map2 (\<lambda>s p. int s div 2 - p div 2) ?sh ?ps"
  let ?te = "map2 (\<lambda>s p. int s div 2 - p div 2 + p) ?sh ?ps"
  let ?ab = "map2 (\<lambda>s p. int s div 2 - p div 2) ?ash ?ps"
  let ?ae = "map2 (\<lambda>s p. int s div 2 - p div 2 + p) ?ash ?ps"
  let ?g = "\<lparr>target_begin = ?tb, target_end = ?te, atlas_begin = ?ab, atlas_end = ?ae\<rparr>"
  have f: "fixed_center self = []"
    using assms(1) by (auto simp: fixed_center_def)
  have lt: "length ?ps = length ?sh"
    using assms(6) by (rule list_all2_lengthD)
  have la: "length ?ps = length ?ash"
    using assms(7) by (rule list_all2_lengthD)
  have c: "choose_center self target_image_shape target_label atlases_image_shape rnd nan_as_int16
             = Inr (unbound\<lparr>
                 loc_target_patch_center := Some (map (\<lambda>s. int16 (int s) div 2) ?sh),
                 loc_atlas_patch_center := Some (map (\<lambda>s. int16 (int s) div 2) ?ash)\<rparr>)"
    by (simp add: choose_center_def f assms(2-5))
  have pc: "broadcast2 (\<lambda>c s. (c, s)) (map (\<lambda>s. int16 (int s) div 2) ?sh) ?sh
              = Inr (map2 (\<lambda>c s. (c, s)) (map (\<lambda>s. int16 (int s) div 2) ?sh) ?sh)"
    by (simp add: broadcast2_same_length)
  have g: "patch_geometry self target_image_shape target_label atlases_image_shape
             atlases_label_shape rnd nan_as_int16 = Inr ?g"
    by (simp add: patch_geometry_def assert_patch_fits_ok[OF assms(6)]
          assert_patch_fits_ok[OF assms(7)] c bind_result_def read_local_def unbound_def pc
          default_bounds(1,2)[OF assms(6,8,10)] default_bounds(1,2)[OF assms(7,9,10)])
  have te: "?te = map2 (\<lambda>b p. b + p) ?tb ?ps"
    using lt by (intro nth_equalityI) simp_all
  have ae: "?ae = map2 (\<lambda>b p. b + p) ?ab ?ps"
    using la by (intro nth_equalityI) simp_all
  show ?thesis
  proof (intro exI[of _ ?g] conjI)
    show "patch_geometry self target_image_shape target_label atlases_image_shape
            atlases_label_shape rnd nan_as_int16 = Inr ?g"
      by (rule g)
    show "target_begin ?g = ?tb"
      by (simp only: geometry.select_convs)
    show "target_end ?g = map2 (\<lambda>b p. b + p) (target_begin ?g) ?ps"
      by (simp only: geometry.select_convs) (rule te)
    show "list_all (\<lambda>b. 0 \<le> b) (target_begin ?g)"
      by (simp only: geometry.select_convs) (rule default_bounds(3)[OF assms(6,8,10)])
    show "list_all2 (\<lambda>e s. e \<le> int s) (target_end ?g) ?sh"
      by (simp only: geometry.select_convs) (rule default_bounds(4)[OF assms(6,8,10)])
    show "atlas_begin ?g = ?ab"
      by (simp only: geometry.select_convs)
    show "atlas_end ?g = map2 (\<lambda>b p. b + p) (atlas_begin ?g) ?ps"
      by (simp only: geometry.select_convs) (rule ae)
    show "list_all (\<lambda>b. 0 \<le> b) (atlas_begin ?g)"
      by (simp only: geometry.select_convs) (rule default_bounds(3)[OF assms(7,9,10)])
    show "list_all2 (\<lambda>e s. e \<le> int s) (atlas_end ?g) ?ash"
      by (simp only: geometry.select_convs) (rule default_bounds(4)[OF assms(7,9,10)])
  qed
qed


end
